theory Spec2Isabelle
  imports Main "HOL-Library.Sublist"
begin

section \<open>The cross-frame message channel (jschannel.js)\<close>

text \<open>
  A shallow embedding of \<^verbatim>\<open>Channel.build\<close> of
  \<^verbatim>\<open>examples/tweetsup/static/jschannel.js\<close>. The private variables of the closure
  (\<^verbatim>\<open>regTbl\<close>, \<^verbatim>\<open>tranTbl\<close>, \<^verbatim>\<open>curTranId\<close>, \<^verbatim>\<open>ready\<close>,
  \<^verbatim>\<open>pendingQueue\<close>, \<^verbatim>\<open>chanId\<close>) and the mutable \<^verbatim>\<open>cfg.origin\<close> form the
  state record \<open>chan\<close>; every function of the closure takes the state and returns the new
  one, together with the list of the effects it had on the outside world (frames handed to
  \<^verbatim>\<open>cfg.window.postMessage\<close>, application functions invoked) and the value it threw,
  if it threw.

  Conventions of the model:
  \<^item> \<^verbatim>\<open>regTbl\<close>, \<^verbatim>\<open>tranTbl\<close> and the \<^verbatim>\<open>callbacks\<close> object are object literals:
    a finite map holds their own properties, and a look-up \<^verbatim>\<open>tbl[name]\<close> that finds no
    own property goes on to \<^verbatim>\<open>Object.prototype\<close> (\<open>object_prototype\<close> below lists its
    names). The keys of \<^verbatim>\<open>tranTbl\<close> are numbers, which \<^verbatim>\<open>Object.prototype\<close> does
    not define.
  \<^item> an inbound frame is typed after the wire schema: \<^verbatim>\<open>id\<close> a number, \<^verbatim>\<open>method\<close>
    and \<^verbatim>\<open>callback\<close> strings, \<^verbatim>\<open>callbacks\<close> an array of strings; an absent field
    is \<open>None\<close> (or \<open>JUndef\<close> for the untyped fields). Its untyped fields hold what
    \<^verbatim>\<open>JSON.parse\<close> produces: no function and no error object.
  \<^item> a value is a tree of own properties. The accessor \<^verbatim>\<open>__proto__\<close> is modelled only
    where it is read as a method or callback name: a parameter tree with a key
    \<^verbatim>\<open>__proto__\<close> and a callback path with an item \<^verbatim>\<open>__proto__\<close> are outside the
    statements about the installation of callbacks.
  \<^item> application functions are identified by a number; invoking a continuation or a local
    callback is recorded as the effect \<open>Fired\<close>, and continuations are taken to return
    normally. A bound handler is run through the environment, which gives, for the arguments
    it is called with, the sequence of calls it makes on its transaction object and then the
    value it returns or throws; a handler makes no call on the public object of the channel
    while it runs.
  \<^item> \<^verbatim>\<open>JSON.stringify\<close> belongs to the host: the effect \<open>Sent\<close> carries the frame as
    it is handed to it, and what the host does while it serialises (it calls a function
    stored under the key \<^verbatim>\<open>toJSON\<close>) is not an effect of the channel. On the values of
    the model, which are finite trees, it is taken not to throw, also where
    \<^verbatim>\<open>postMessage\<close> builds the argument of \<^verbatim>\<open>debug\<close> with it.
  \<^item> \<^verbatim>\<open>debug\<close> output is left out, and so is \<^verbatim>\<open>e.stopPropogation()\<close>, whose
    exception is caught.
\<close>

subsection \<open>JavaScript values\<close>

text \<open>
  A function value is a function of the application or \<open>Proxy i p\<close>, the synthetic
  callable \<^verbatim>\<open>function(params) { return trans.invoke(cbName, params); }\<close> that this
  channel made for the callback path \<open>p\<close> of its inbound request \<open>i\<close>.
\<close>

datatype fnref = AppFn nat | Proxy nat string

text \<open>
  An array is an object with index keys and a \<^verbatim>\<open>length\<close>: \<open>JObj (Some n) kvs\<close>; a plain
  object is \<open>JObj None kvs\<close>. The list \<open>kvs\<close> holds the own enumerable properties in
  the order \<^verbatim>\<open>for (k in obj)\<close> enumerates them. \<open>JError\<close> is a native error object
  (\<^verbatim>\<open>TypeError\<close>, \<^verbatim>\<open>RangeError\<close>).
\<close>

datatype jsval =
    JUndef
  | JNull
  | JBool bool
  | JNum int
  | JStr string
  | JFun fnref
  | JError string
  | JObj "nat option" "(string \<times> jsval) list"

datatype jstype = TUndefined | TObject | TBoolean | TNumber | TString | TFunction

fun typeof :: "jsval \<Rightarrow> jstype" where
  "typeof JUndef = TUndefined"
| "typeof JNull = TObject"
| "typeof (JBool b) = TBoolean"
| "typeof (JNum n) = TNumber"
| "typeof (JStr s) = TString"
| "typeof (JFun f) = TFunction"
| "typeof (JError e) = TObject"
| "typeof (JObj a kvs) = TObject"

fun truthy :: "jsval \<Rightarrow> bool" where
  "truthy JUndef = False"
| "truthy JNull = False"
| "truthy (JBool b) = b"
| "truthy (JNum n) = (n \<noteq> 0)"
| "truthy (JStr s) = (s \<noteq> [])"
| "truthy (JFun f) = True"
| "truthy (JError e) = True"
| "truthy (JObj a kvs) = True"

definition own_prop :: "(string \<times> jsval) list \<Rightarrow> string \<Rightarrow> jsval" where
  "own_prop kvs k = (case map_of kvs k of Some v \<Rightarrow> v | None \<Rightarrow> JUndef)"

datatype completion = Return jsval | Throw jsval

subsection \<open>The properties every object literal inherits\<close>

text \<open>
  The names \<^verbatim>\<open>Object.prototype\<close> defines: the seven of the language standard and the
  five legacy ones every browser adds. All of them are truthy, so a test
  \<^verbatim>\<open>if (tbl[name])\<close> succeeds for each of them on every object literal.
\<close>

definition object_prototype :: "string list" where
  "object_prototype =
     [''constructor'', ''toString'', ''toLocaleString'', ''valueOf'', ''hasOwnProperty'',
      ''isPrototypeOf'', ''propertyIsEnumerable'', ''__defineGetter__'', ''__defineSetter__'',
      ''__lookupGetter__'', ''__lookupSetter__'', ''__proto__'']"

text \<open>
  Whether the call \<^verbatim>\<open>tbl[name](a, b)\<close> of an inherited property throws, where \<open>badkey\<close>
  says that \<^verbatim>\<open>a\<close> cannot be converted to a property key and \<^verbatim>\<open>b\<close> is not callable
  (it is a parsed value or absent): \<^verbatim>\<open>__proto__\<close> is an object and not a function,
  \<^verbatim>\<open>__defineGetter__\<close> and \<^verbatim>\<open>__defineSetter__\<close> insist on a callable second argument,
  and the four functions that take a property key convert their first argument.
\<close>

definition inherited_throws :: "string \<Rightarrow> bool \<Rightarrow> bool" where
  "inherited_throws name badkey =
     (name \<notin> set object_prototype
      \<or> name \<in> {''__proto__'', ''__defineGetter__'', ''__defineSetter__''}
      \<or> (badkey \<and> name \<in> {''hasOwnProperty'', ''propertyIsEnumerable'',
                             ''__lookupGetter__'', ''__lookupSetter__''}))"

text \<open>
  The call \<^verbatim>\<open>tbl[name](a, b)\<close> of an inherited property where \<^verbatim>\<open>a\<close> is the transaction
  object or \<^verbatim>\<open>null\<close>, whose property keys are \<^verbatim>\<open>[object Object]\<close> and \<^verbatim>\<open>null\<close>;
  \<open>own\<close> says whether \<^verbatim>\<open>tbl\<close> has an own property of that key. \<^verbatim>\<open>valueOf\<close> returns
  \<^verbatim>\<open>tbl\<close> itself and \<^verbatim>\<open>constructor\<close> (which is \<^verbatim>\<open>Object\<close>) returns \<^verbatim>\<open>a\<close> or a
  new object; the properties of both hold functions only, which do not reach the wire, so
  both are written \<^verbatim>\<open>{ }\<close>. \<^verbatim>\<open>toLocaleString\<close> calls \<^verbatim>\<open>tbl.toString()\<close>; it is
  given here for a table without an own property \<^verbatim>\<open>toString\<close>.
\<close>

definition call_inherited :: "string \<Rightarrow> bool \<Rightarrow> completion" where
  "call_inherited name own =
     (if inherited_throws name False then Throw (JError ''TypeError'')
      else if name \<in> {''toString'', ''toLocaleString''} then Return (JStr ''[object Object]'')
      else if name \<in> {''valueOf'', ''constructor''} then Return (JObj None [])
      else if name \<in> {''hasOwnProperty'', ''propertyIsEnumerable''} then Return (JBool own)
      else if name = ''isPrototypeOf'' then Return (JBool False)
      else Return JUndef)"

text \<open>
  Converting a parsed value to a property key throws for an object with an own property
  \<^verbatim>\<open>toString\<close> (it is not callable, and \<^verbatim>\<open>valueOf\<close> does not give a primitive), and
  for an array one of whose elements cannot be converted.
\<close>

fun key_fails :: "jsval \<Rightarrow> bool"
  and key_fails_elems :: "(string \<times> jsval) list \<Rightarrow> bool"
where
  "key_fails (JObj None kvs) = (map_of kvs ''toString'' \<noteq> None)"
| "key_fails (JObj (Some n) kvs) = key_fails_elems kvs"
| "key_fails v = False"
| "key_fails_elems [] = False"
| "key_fails_elems ((k, v) # rest) = (key_fails v \<or> key_fails_elems rest)"

subsection \<open>Frames, configuration, state\<close>

record frame =
  f_id :: "nat option"
  f_method :: "string option"
  f_params :: jsval
  f_callbacks :: "string list option"
  f_callback :: "string option"
  f_result :: jsval
  f_error :: jsval
  f_message :: jsval

definition empty_frame :: frame where
  "empty_frame = \<lparr> f_id = None, f_method = None, f_params = JUndef, f_callbacks = None,
     f_callback = None, f_result = JUndef, f_error = JUndef, f_message = JUndef \<rparr>"

record config =
  cfg_scope :: "string option"
  cfg_postMessageObserver :: bool
  cfg_gotMessageObserver :: bool
  cfg_onReady :: bool

text \<open>
  What \<^verbatim>\<open>regTbl[method]\<close> can yield: the handshake handler, a handler of the application,
  or a function inherited from \<^verbatim>\<open>Object.prototype\<close>.
\<close>

datatype handler = OnReady | App nat | Builtin string

datatype tran = In | Out "string \<rightharpoonup> fnref" "fnref option" fnref

record chan =
  regTbl :: "string \<rightharpoonup> handler"
  tranTbl :: "nat \<rightharpoonup> tran"
  curTranId :: nat
  ready :: bool
  pendingQueue :: "frame list"
  chanId :: string
  origin :: "string option"
  listening :: bool

datatype effect =
    Sent frame
  | PostObserved frame
  | GotObserved frame
  | Handled nat "nat option" jsval
  | Fired fnref "jsval list"
  | Asked fnref string
  | ReadyObserved

type_synonym outcome = "chan \<times> effect list \<times> jsval option"

text \<open>
  \<open>Sent\<close> is a frame handed to \<^verbatim>\<open>cfg.window.postMessage\<close>, \<open>Handled\<close> the run of an
  application handler, \<open>Fired\<close> the call of a continuation or of a local callback, and
  \<open>Asked f k\<close> the call \<^verbatim>\<open>obj.hasOwnProperty(k)\<close> that reached the function \<open>f\<close> of the
  application; the three \<open>Observed\<close> are the calls of the observers of the configuration.

  \<^verbatim>\<open>regTbl[method]\<close>: the own property, or else the inherited one.
\<close>

definition reg_get :: "chan \<Rightarrow> string \<Rightarrow> handler option" where
  "reg_get s method =
     (case regTbl s method of
        Some h \<Rightarrow> Some h
      | None \<Rightarrow> if method \<in> set object_prototype then Some (Builtin method) else None)"

subsection \<open>Sending\<close>

definition scopeMethod :: "config \<Rightarrow> string \<Rightarrow> string" where
  "scopeMethod c m =
     (case cfg_scope c of
        Some sc \<Rightarrow> if sc \<noteq> [] then sc @ ''::'' @ m else m
      | None \<Rightarrow> m)"

text \<open>
  \<^verbatim>\<open>postMessage(msg, force)\<close>: the frame is queued unless the channel is ready or the
  send is forced; \<^verbatim>\<open>msg\<close> is always an object, so the first \<^verbatim>\<open>throw\<close> is dead.
\<close>

definition postMessage :: "config \<Rightarrow> chan \<Rightarrow> frame \<Rightarrow> bool \<Rightarrow> chan \<times> effect list" where
  "postMessage c s msg force =
     (if \<not> force \<and> \<not> ready s then (s\<lparr>pendingQueue := pendingQueue s @ [msg]\<rparr>, [])
      else (s, (if cfg_postMessageObserver c then [PostObserved msg] else []) @ [Sent msg]))"

text \<open>
  \<^verbatim>\<open>unbind\<close> and \<^verbatim>\<open>bind\<close>. Deleting a property the table does not own succeeds and
  changes nothing, so \<^verbatim>\<open>unbind\<close> of an inherited name returns \<^verbatim>\<open>true\<close>; \<^verbatim>\<open>bind\<close>
  refuses every name the look-up resolves, so the table never owns an inherited name.
\<close>

definition unbind :: "chan \<Rightarrow> string \<Rightarrow> chan \<times> bool" where
  "unbind s method =
     (case reg_get s method of
        Some h \<Rightarrow> (s\<lparr>regTbl := (regTbl s)(method := None)\<rparr>, True)
      | None \<Rightarrow> (s, False))"

definition bind_handler :: "chan \<Rightarrow> string \<Rightarrow> handler \<Rightarrow> chan \<times> jsval option" where
  "bind_handler s method cb =
     (if method = [] then (s, Some (JStr ([CHR 0x27] @ ''method'' @ [CHR 0x27] @ '' argument to bind must be string'')))
      else case reg_get s method of
        Some h \<Rightarrow> (s, Some (JStr (''method '' @ [CHR 0x27] @ method @ [CHR 0x27] @ '' is already bound!'')))
      | None \<Rightarrow> (s\<lparr>regTbl := (regTbl s)(method \<mapsto> cb)\<rparr>, None))"

definition notify :: "config \<Rightarrow> chan \<Rightarrow> string \<Rightarrow> jsval \<Rightarrow> outcome" where
  "notify c s method params =
     (if method = [] then (s, [], Some (JStr ([CHR 0x27] @ ''method'' @ [CHR 0x27] @ '' argument to notify must be string'')))
      else let (s', es) = postMessage c s
                 (empty_frame\<lparr>f_method := Some (scopeMethod c method), f_params := params\<rparr>) False
           in (s', es, None))"

text \<open>
  The flush loop of \<^verbatim>\<open>onReady\<close>:
  \<^verbatim>\<open>while (pendingQueue.length) postMessage(pendingQueue.pop());\<close>
  When the channel is not ready the popped frame is pushed back and the loop never ends,
  so the loop is a partial function.
\<close>

partial_function (option) flush :: "config \<Rightarrow> chan \<Rightarrow> (chan \<times> effect list) option" where
  "flush c s =
     (if pendingQueue s = [] then Some (s, [])
      else case postMessage c (s\<lparr>pendingQueue := butlast (pendingQueue s)\<rparr>)
                  (last (pendingQueue s)) False of
             (s1, e1) \<Rightarrow>
               Option.bind (flush c s1) (\<lambda>r. Some (fst r, e1 @ snd r)))"

declare flush.simps [code]

definition onReady :: "config \<Rightarrow> chan \<Rightarrow> jsval \<Rightarrow> outcome option" where
  "onReady c s ty =
     (if ready s
      then Some (s, [], Some (JStr ''received ready message while in ready state.  help!''))
      else
        let s1 = (if ty = JStr ''ping''
                  then s\<lparr>chanId := chanId s @ ''-R'',
                         curTranId := curTranId s + curTranId s mod 2\<rparr>
                  else s\<lparr>chanId := chanId s @ ''-L''\<rparr>);
            s2 = fst (unbind s1 ''__ready'');
            s3 = s2\<lparr>ready := True\<rparr>;
            (s4, e1, x1) = (if ty = JStr ''ping''
                            then notify c s3 ''__ready'' (JStr ''pong'')
                            else (s3, [], None))
        in case x1 of
             Some t \<Rightarrow> Some (s4, e1, Some t)
           | None \<Rightarrow>
               (case flush c s4 of
                  None \<Rightarrow> None
                | Some (s5, e2) \<Rightarrow>
                    Some (s5, e1 @ e2 @ (if cfg_onReady c then [ReadyObserved] else []), None)))"


subsection \<open>Strings: \<^verbatim>\<open>split\<close> and decimal numbers\<close>

text \<open>\<^verbatim>\<open>s.split(sep)\<close>; with the empty separator JavaScript splits into characters.\<close>

function split_str :: "string \<Rightarrow> string \<Rightarrow> string list" where
  "split_str sep s =
     (if sep = [] then map (\<lambda>ch. [ch]) s
      else if s = [] then [[]]
      else if prefix sep s then [] # split_str sep (drop (length sep) s)
      else case split_str sep (tl s) of
             w # ws \<Rightarrow> (hd s # w) # ws
           | [] \<Rightarrow> [[hd s]])"
  by pat_completeness auto
termination
  by (relation "measure (\<lambda>(sep, s). length s)") (auto simp: neq_Nil_conv)

declare split_str.simps [simp del]

definition digit_char :: "nat \<Rightarrow> char" where
  "digit_char d = ''0123456789'' ! d"

function show_nat :: "nat \<Rightarrow> string" where
  "show_nat n =
     (if n < 10 then [digit_char n]
      else show_nat (n div 10) @ [digit_char (n mod 10)])"
  by pat_completeness auto
termination
  by (relation "measure id") auto

declare show_nat.simps [simp del]

definition is_digit :: "char \<Rightarrow> bool" where
  "is_digit ch = (48 \<le> (of_char ch :: nat) \<and> (of_char ch :: nat) \<le> 57)"

fun parse_nat :: "nat \<Rightarrow> string \<Rightarrow> nat option" where
  "parse_nat acc [] = Some acc"
| "parse_nat acc (ch # cs) =
     (if is_digit ch then parse_nat (acc * 10 + (of_char ch - 48)) cs else None)"

text \<open>An array index is the canonical decimal form of a number below \<open>2^32 - 1\<close>.\<close>

definition index_of_key :: "string \<Rightarrow> nat option" where
  "index_of_key k =
     (if k = [] \<or> (hd k = CHR ''0'' \<and> k \<noteq> ''0'') then None
      else case parse_nat 0 k of
             Some i \<Rightarrow> if i < 4294967295 then Some i else None
           | None \<Rightarrow> None)"

subsection \<open>Property access\<close>

text \<open>
  \<^verbatim>\<open>obj[k]\<close> and \<^verbatim>\<open>obj[k] = v\<close> on the values a parsed frame can hold. Reading a
  property of \<^verbatim>\<open>undefined\<close> or \<^verbatim>\<open>null\<close> throws; an assignment to a property of a
  primitive is ignored. The code only ever stores objects and functions, so an assignment to
  the \<^verbatim>\<open>length\<close> of an array throws. Functions and error objects never occur in a
  parsed frame; the model reads no property from them.
\<close>

definition set_prop :: "(string \<times> jsval) list \<Rightarrow> string \<Rightarrow> jsval \<Rightarrow> (string \<times> jsval) list" where
  "set_prop kvs k v =
     (if k \<in> fst ` set kvs then map (\<lambda>(k', v'). if k' = k then (k', v) else (k', v')) kvs
      else kvs @ [(k, v)])"

fun js_get :: "jsval \<Rightarrow> string \<Rightarrow> jsval + jsval" where
  "js_get JUndef k = Inl (JError ''TypeError'')"
| "js_get JNull k = Inl (JError ''TypeError'')"
| "js_get (JObj None kvs) k = Inr (own_prop kvs k)"
| "js_get (JObj (Some n) kvs) k =
     Inr (if k = ''length'' then JNum (int n) else own_prop kvs k)"
| "js_get (JStr s) k =
     Inr (if k = ''length'' then JNum (int (length s))
          else case index_of_key k of
                 Some i \<Rightarrow> if i < length s then JStr [s ! i] else JUndef
               | None \<Rightarrow> JUndef)"
| "js_get v k = Inr JUndef"

fun js_set :: "jsval \<Rightarrow> string \<Rightarrow> jsval \<Rightarrow> jsval + jsval" where
  "js_set JUndef k v = Inl (JError ''TypeError'')"
| "js_set JNull k v = Inl (JError ''TypeError'')"
| "js_set (JObj None kvs) k v = Inr (JObj None (set_prop kvs k v))"
| "js_set (JObj (Some n) kvs) k v =
     (if k = ''length'' then Inl (JError ''RangeError'')
      else Inr (JObj (Some (case index_of_key k of Some i \<Rightarrow> max n (i + 1) | None \<Rightarrow> n))
                  (set_prop kvs k v)))"
| "js_set obj k v = Inr obj"

subsection \<open>Callback marshalling\<close>

text \<open>
  The object \<^verbatim>\<open>callbacks\<close> of \<^verbatim>\<open>call\<close> after the stores \<^verbatim>\<open>callbacks[np] = obj[k]\<close>,
  in the order they were made.
\<close>

definition callbacks_of :: "(string \<times> fnref) list \<Rightarrow> (string \<rightharpoonup> fnref)" where
  "callbacks_of fs = fold (\<lambda>(p, f) m. m(p \<mapsto> f)) fs Map.empty"

text \<open>
  The receiving side of a request: for each declared path, walk \<^verbatim>\<open>m.params\<close> along the
  path items, creating \<^verbatim>\<open>{ }\<close> where the next item is not an object, and store the
  synthetic callable under the last item. The source mutates the tree in place; the model
  rebuilds the parent with the updated child.
\<close>

fun install_items :: "string list \<Rightarrow> jsval \<Rightarrow> jsval \<Rightarrow> jsval + jsval" where
  "install_items [] v obj = Inr obj"
| "install_items [k] v obj = js_set obj k v"
| "install_items (cp # rest) v obj =
     (case js_get obj cp of
        Inl t \<Rightarrow> Inl t
      | Inr child \<Rightarrow>
          (case (if typeof child \<noteq> TObject then js_set obj cp (JObj None []) else Inr obj) of
             Inl t \<Rightarrow> Inl t
           | Inr obj1 \<Rightarrow>
               (case js_get obj1 cp of
                  Inl t \<Rightarrow> Inl t
                | Inr child1 \<Rightarrow>
                    (case install_items rest v child1 of
                       Inl t \<Rightarrow> Inl t
                     | Inr child2 \<Rightarrow>
                         (case child1 of
                            JObj a kvs \<Rightarrow> js_set obj1 cp child2
                          | _ \<Rightarrow> Inr obj1)))))"

text \<open>
  A path none of whose items is \<^verbatim>\<open>__proto__\<close>: walking it reads and writes own
  properties only.
\<close>

definition plain_path :: "string \<Rightarrow> bool" where
  "plain_path path = (''__proto__'' \<notin> set (split_str ''/'' path))"

fun install_callbacks :: "nat \<Rightarrow> string list \<Rightarrow> jsval \<Rightarrow> jsval + jsval" where
  "install_callbacks i [] p = Inr p"
| "install_callbacks i (path # ps) p =
     (case install_items (split_str ''/'' path) (JFun (Proxy i path)) p of
        Inl t \<Rightarrow> Inl t
      | Inr p' \<Rightarrow> install_callbacks i ps p')"

subsection \<open>The wire\<close>

text \<open>
  What \<^verbatim>\<open>JSON.parse(JSON.stringify(v))\<close> makes of a value: a property holding
  \<^verbatim>\<open>undefined\<close> or a function is dropped from an object and becomes \<^verbatim>\<open>null\<close> in
  an array; an array keeps its elements \<open>0 .. length - 1\<close> and nothing else.
\<close>

fun wire :: "jsval \<Rightarrow> jsval"
  and wire_props :: "(string \<times> jsval) list \<Rightarrow> (string \<times> jsval) list"
  and wire_elems :: "(string \<times> jsval) list \<Rightarrow> (string \<times> jsval) list"
where
  "wire (JObj None kvs) = JObj None (wire_props kvs)"
| "wire (JObj (Some n) kvs) =
     JObj (Some n)
       (map (\<lambda>i. (show_nat i, case map_of (wire_elems kvs) (show_nat i) of
                                 Some v \<Rightarrow> v | None \<Rightarrow> JNull)) [0..<n])"
| "wire (JFun f) = JUndef"
| "wire (JError e) = JObj None []"
| "wire v = v"
| "wire_props [] = []"
| "wire_props ((k, v) # rest) =
     (case wire v of JUndef \<Rightarrow> wire_props rest | w \<Rightarrow> (k, w) # wire_props rest)"
| "wire_elems [] = []"
| "wire_elems ((k, v) # rest) =
     (k, case wire v of JUndef \<Rightarrow> JNull | w \<Rightarrow> w) # wire_elems rest"

definition wire_frame :: "frame \<Rightarrow> frame" where
  "wire_frame m = m\<lparr> f_params := wire (f_params m), f_result := wire (f_result m),
     f_error := wire (f_error m), f_message := wire (f_message m) \<rparr>"

definition sent :: "effect list \<Rightarrow> frame list" where
  "sent es = concat (map (\<lambda>e. case e of Sent m \<Rightarrow> [m] | _ \<Rightarrow> []) es)"

definition post_effects :: "config \<Rightarrow> frame \<Rightarrow> effect list" where
  "post_effects c msg = (if cfg_postMessageObserver c then [PostObserved msg] else []) @ [Sent msg]"

subsection \<open>The transaction object\<close>

text \<open>
  \<^verbatim>\<open>createTransaction(id, callbacks)\<close>. The two local variables of the closure are
  the flags; each method takes and returns them with the state.
\<close>

record flags =
  shouldDelayReturn :: bool
  completed :: bool

datatype action = Invoke string jsval | Complete jsval | Error jsval jsval | DelayReturn jsval

record env =
  json_stringify :: "jsval \<Rightarrow> jsval option"
  to_string :: "jsval \<Rightarrow> jsval"
  handler_run :: "nat \<Rightarrow> nat option \<Rightarrow> jsval \<Rightarrow> action list \<times> completion"
  fn_run :: "nat \<Rightarrow> jsval list \<Rightarrow> completion"

text \<open>
  \<open>json_stringify\<close> is \<^verbatim>\<open>JSON.stringify\<close> (\<open>None\<close> when it throws),
  \<open>to_string\<close> is \<^verbatim>\<open>e.toString()\<close>, \<open>handler_run h t p\<close> is what the
  application handler \<open>h\<close> does when called with the transaction \<open>t\<close> (\<open>None\<close> for
  \<^verbatim>\<open>null\<close>) and the parameters \<open>p\<close>, and \<open>fn_run f args\<close> is the value the
  function \<open>f\<close> of the application returns or throws when the pruning walk of
  \<^verbatim>\<open>call\<close> calls it with \<open>args\<close>; such a function leaves the channel and the
  parameters alone.
\<close>

definition trans_invoke :: "config \<Rightarrow> chan \<Rightarrow> nat \<Rightarrow> string list \<Rightarrow> string \<Rightarrow> jsval \<Rightarrow> outcome" where
  "trans_invoke c s i callbacks cbName v =
     (if tranTbl s i = None
      then (s, [], Some (JStr (''attempting to invoke a callback of a non-existant transaction: ''
                                @ show_nat i)))
      else if cbName \<notin> set callbacks
      then (s, [], Some (JStr (''request supports no such callback '' @ [CHR 0x27] @ cbName @ [CHR 0x27])))
      else case postMessage c s
                  (empty_frame\<lparr>f_id := Some i, f_callback := Some cbName, f_params := v\<rparr>) False of
             (s', es) \<Rightarrow> (s', es, None))"

definition trans_error :: "config \<Rightarrow> chan \<Rightarrow> nat \<Rightarrow> jsval \<Rightarrow> jsval \<Rightarrow> outcome" where
  "trans_error c s i err message =
     (case tranTbl s i of
        None \<Rightarrow> (s, [], Some (JStr (''error called for non-existant message: '' @ show_nat i)))
      | Some t \<Rightarrow>
          if t \<noteq> In
          then (s, [], Some (JStr ''error called for message we *sent*.  that's not right''))
          else case postMessage c (s\<lparr>tranTbl := (tranTbl s)(i := None)\<rparr>)
                      (empty_frame\<lparr>f_id := Some i, f_error := err, f_message := message\<rparr>) False of
                 (s', es) \<Rightarrow> (s', es, None))"

definition trans_complete :: "config \<Rightarrow> chan \<Rightarrow> nat \<Rightarrow> jsval \<Rightarrow> outcome" where
  "trans_complete c s i v =
     (case tranTbl s i of
        None \<Rightarrow> (s, [], Some (JStr (''complete called for non-existant message: '' @ show_nat i)))
      | Some t \<Rightarrow>
          if t \<noteq> In
          then (s, [], Some (JStr ''complete called for message we *sent*.  that's not right''))
          else case postMessage c (s\<lparr>tranTbl := (tranTbl s)(i := None)\<rparr>)
                      (empty_frame\<lparr>f_id := Some i, f_result := v\<rparr>) False of
                 (s', es) \<Rightarrow> (s', es, None))"

definition run_action ::
  "config \<Rightarrow> nat \<Rightarrow> string list \<Rightarrow> chan \<times> flags \<Rightarrow> action \<Rightarrow> (chan \<times> flags) \<times> effect list \<times> jsval option" where
  "run_action c i callbacks sf a =
     (case sf of (s, fl) \<Rightarrow>
        (case a of
           Invoke cbName v \<Rightarrow>
             (case trans_invoke c s i callbacks cbName v of (s', es, x) \<Rightarrow> ((s', fl), es, x))
         | Complete v \<Rightarrow>
             (case trans_complete c s i v of (s', es, x) \<Rightarrow> ((s', fl\<lparr>completed := True\<rparr>), es, x))
         | Error e m \<Rightarrow>
             (case trans_error c s i e m of (s', es, x) \<Rightarrow> ((s', fl\<lparr>completed := True\<rparr>), es, x))
         | DelayReturn d \<Rightarrow>
             ((s, case d of JBool b \<Rightarrow> fl\<lparr>shouldDelayReturn := b\<rparr> | _ \<Rightarrow> fl), [], None)))"

text \<open>The calls a handler makes, in order; the first one that throws ends the handler.\<close>

fun run_actions ::
  "config \<Rightarrow> nat \<Rightarrow> string list \<Rightarrow> chan \<times> flags \<Rightarrow> action list \<Rightarrow> (chan \<times> flags) \<times> effect list \<times> jsval option" where
  "run_actions c i callbacks sf [] = (sf, [], None)"
| "run_actions c i callbacks sf (a # as) =
     (case run_action c i callbacks sf a of
        (sf1, e1, Some t) \<Rightarrow> (sf1, e1, Some t)
      | (sf1, e1, None) \<Rightarrow>
          (case run_actions c i callbacks sf1 as of (sf2, e2, x) \<Rightarrow> (sf2, e1 @ e2, x)))"

subsection \<open>Error normalisation\<close>

text \<open>
  \<^verbatim>\<open>try { message = JSON.stringify(e); } catch (e2) { message = e.toString(); }\<close>
\<close>

definition serialize :: "env \<Rightarrow> jsval \<Rightarrow> jsval" where
  "serialize en e = (case json_stringify en e of Some str \<Rightarrow> str | None \<Rightarrow> to_string en e)"

definition array_length :: "jsval \<Rightarrow> nat option" where
  "array_length e = (case e of JObj (Some n) kvs \<Rightarrow> Some n | _ \<Rightarrow> None)"

definition field :: "jsval \<Rightarrow> string \<Rightarrow> jsval" where
  "field e k = (case e of JObj a kvs \<Rightarrow> own_prop kvs k | _ \<Rightarrow> JUndef)"

text \<open>
  The \<^verbatim>\<open>catch\<close> block of the request branch, up to the call of \<^verbatim>\<open>trans.error\<close>:
  the pair \<open>(error, message)\<close>, or the \<^verbatim>\<open>TypeError\<close> that reading
  \<^verbatim>\<open>e.error\<close> of \<^verbatim>\<open>null\<close> throws. The first component of the intermediate triple
  is the variable \<^verbatim>\<open>e\<close>, which the source reassigns.
\<close>

definition normalize_thrown :: "env \<Rightarrow> jsval \<Rightarrow> jsval + (jsval \<times> jsval)" where
  "normalize_thrown en e =
     (let r =
        (if typeof e = TString then Inr (e, JStr ''runtime_error'', e)
         else if typeof e = TObject then
           (if truthy e \<and> array_length e = Some 2
            then Inr (e, field e ''0'', field e ''1'')
            else if e = JNull then Inl (JError ''TypeError'')
            else if typeof (field e ''error'') = TString then
              (if \<not> truthy (field e ''message'') then Inr (e, field e ''error'', JStr [])
               else if typeof (field e ''message'') = TString
               then Inr (e, field e ''error'', field e ''message'')
               else Inr (field e ''message'', field e ''error'', JNull))
            else Inr (e, JStr ''runtime_error'', JNull))
         else Inr (e, JStr ''runtime_error'', JNull))
      in case r of
           Inl t \<Rightarrow> Inl t
         | Inr (e', err, message) \<Rightarrow>
             if message = JNull
             then Inr (err, serialize en e')
             else Inr (err, message))"

subsection \<open>Receiving\<close>

datatype payload = Unparseable | Primitive | NullValue | Obj frame

record event =
  ev_origin :: string
  ev_data :: payload

text \<open>
  Descoping: \<open>None\<close> when the frame is dropped, otherwise the value of
  \<^verbatim>\<open>unscopedMethod\<close>.
\<close>

definition descope :: "config \<Rightarrow> string option \<Rightarrow> string option option" where
  "descope c method =
     (case method of
        None \<Rightarrow> Some None
      | Some mth \<Rightarrow>
          (case cfg_scope c of
             None \<Rightarrow> Some (Some mth)
           | Some sc \<Rightarrow>
               if mth = [] \<or> sc = [] then Some (Some mth)
               else case split_str ''::'' mth of
                      [a0, a1] \<Rightarrow> if a0 \<noteq> sc then None else Some (Some a1)
                    | _ \<Rightarrow> None))"

definition m_id :: "frame \<Rightarrow> nat option" where
  "m_id m = (case f_id m of Some i \<Rightarrow> if i \<noteq> 0 then Some i else None | None \<Rightarrow> None)"

definition m_method :: "frame \<Rightarrow> string option" where
  "m_method m = (case f_method m of Some x \<Rightarrow> if x \<noteq> [] then Some x else None | None \<Rightarrow> None)"

definition m_callback :: "frame \<Rightarrow> string option" where
  "m_callback m = (case f_callback m of Some x \<Rightarrow> if x \<noteq> [] then Some x else None | None \<Rightarrow> None)"

text \<open>
  The \<^verbatim>\<open>try\<close> block of the request branch: install the callbacks, run the handler,
  complete with its return value unless it delayed or completed itself. The result is the
  state, the effects and the value thrown inside the block, if any. An inherited function is
  called as \<^verbatim>\<open>regTbl[m.method](trans, m.params)\<close>; it touches neither the transaction
  nor the state.
\<close>

definition run_handler ::
  "config \<Rightarrow> env \<Rightarrow> chan \<Rightarrow> nat \<Rightarrow> string list \<Rightarrow> handler \<Rightarrow> jsval \<Rightarrow> outcome option" where
  "run_handler c en s i callbacks h params =
     (case h of
        App n \<Rightarrow>
          (case handler_run en n (Some i) params of (acts, fin) \<Rightarrow>
            (case run_actions c i callbacks (s, \<lparr>shouldDelayReturn = False, completed = False\<rparr>) acts of
               ((s1, fl), e1, Some t) \<Rightarrow> Some (s1, Handled n (Some i) params # e1, Some t)
             | ((s1, fl), e1, None) \<Rightarrow>
                 (case fin of
                    Throw t \<Rightarrow> Some (s1, Handled n (Some i) params # e1, Some t)
                  | Return resp \<Rightarrow>
                      if \<not> shouldDelayReturn fl \<and> \<not> completed fl
                      then case trans_complete c s1 i resp of
                             (s2, e2, x) \<Rightarrow> Some (s2, Handled n (Some i) params # e1 @ e2, x)
                      else Some (s1, Handled n (Some i) params # e1, None))))
      | OnReady \<Rightarrow>
          (case onReady c s params of
             None \<Rightarrow> None
           | Some (s1, e1, Some t) \<Rightarrow> Some (s1, e1, Some t)
           | Some (s1, e1, None) \<Rightarrow>
               (case trans_complete c s1 i JUndef of (s2, e2, x) \<Rightarrow> Some (s2, e1 @ e2, x)))
      | Builtin name \<Rightarrow>
          (case call_inherited name (regTbl s ''[object Object]'' \<noteq> None) of
             Throw t \<Rightarrow> Some (s, [], Some t)
           | Return resp \<Rightarrow>
               (case trans_complete c s i resp of (s2, e2, x) \<Rightarrow> Some (s2, e2, x))))"

definition on_request :: "config \<Rightarrow> env \<Rightarrow> chan \<Rightarrow> frame \<Rightarrow> nat \<Rightarrow> handler \<Rightarrow> outcome option" where
  "on_request c en s m i h =
     (let callbacks = (case f_callbacks m of Some cs \<Rightarrow> cs | None \<Rightarrow> []);
          s1 = s\<lparr>tranTbl := (tranTbl s)(i \<mapsto> In)\<rparr>;
          tried = (case install_callbacks i callbacks (f_params m) of
                     Inl t \<Rightarrow> Some (s1, [], Some t)
                   | Inr params \<Rightarrow> run_handler c en s1 i callbacks h params)
      in case tried of
           None \<Rightarrow> None
         | Some (s2, e2, None) \<Rightarrow> Some (s2, e2, None)
         | Some (s2, e2, Some t) \<Rightarrow>
             (case normalize_thrown en t of
                Inl t' \<Rightarrow> Some (s2, e2, Some t')
              | Inr (err, message) \<Rightarrow>
                  (case trans_error c s2 i err message of
                     (s3, e3, x) \<Rightarrow> Some (s3, e2 @ e3, x))))"

text \<open>
  A progress frame. \<^verbatim>\<open>callbacks[m.callback]\<close> is the local callable stored under that
  path or, for a name of \<^verbatim>\<open>Object.prototype\<close> with nothing stored under it, the
  inherited function, which is then called with \<^verbatim>\<open>m.params\<close>: its result is not used,
  and \<^verbatim>\<open>toLocaleString\<close> calls the \<^verbatim>\<open>toString\<close> of the object, which is a local
  callable when one was stored under that path.
\<close>

definition on_progress :: "chan \<Rightarrow> frame \<Rightarrow> nat \<Rightarrow> string \<Rightarrow> outcome" where
  "on_progress s m i cb =
     (case tranTbl s i of
        Some (Out cbs err succ) \<Rightarrow>
          (case cbs cb of
             Some f \<Rightarrow> (s, [Fired f [f_params m]], None)
           | None \<Rightarrow>
               if cb \<notin> set object_prototype then (s, [], None)
               else if cb = ''toLocaleString''
               then (case cbs ''toString'' of
                       Some f \<Rightarrow> (s, [Fired f []], None)
                     | None \<Rightarrow> (s, [], None))
               else (s, [], if inherited_throws cb (key_fails (f_params m))
                            then Some (JError ''TypeError'') else None))
      | _ \<Rightarrow> (s, [], None))"

text \<open>
  A final response. When the frame carries an error and the call gave no \<^verbatim>\<open>error\<close>
  function, calling \<^verbatim>\<open>undefined\<close> throws before the transaction is deleted.
\<close>

definition on_response :: "chan \<Rightarrow> frame \<Rightarrow> nat \<Rightarrow> outcome" where
  "on_response s m i =
     (case tranTbl s i of
        Some (Out cbs err succ) \<Rightarrow>
          (if truthy (f_error m)
           then case err of
                  Some ef \<Rightarrow> (s\<lparr>tranTbl := (tranTbl s)(i := None)\<rparr>,
                              [Fired ef [f_error m, f_message m]], None)
                | None \<Rightarrow> (s, [], Some (JError ''TypeError''))
           else (s\<lparr>tranTbl := (tranTbl s)(i := None)\<rparr>, [Fired succ [f_result m]], None))
      | _ \<Rightarrow> (s, [], None))"

text \<open>
  A notification: the handler is called with \<^verbatim>\<open>null\<close> for the transaction, so the
  first call it makes on the transaction throws a \<^verbatim>\<open>TypeError\<close>. Whatever it throws
  leaves \<^verbatim>\<open>onMessage\<close> uncaught; its return value is not used. An inherited function is
  called as \<^verbatim>\<open>regTbl[m.method](null, m.params)\<close>.
\<close>

definition on_notification :: "config \<Rightarrow> env \<Rightarrow> chan \<Rightarrow> frame \<Rightarrow> handler \<Rightarrow> outcome option" where
  "on_notification c en s m h =
     (case h of
        App n \<Rightarrow>
          (case handler_run en n None (f_params m) of
             (a # as, fin) \<Rightarrow> Some (s, [Handled n None (f_params m)], Some (JError ''TypeError''))
           | ([], Throw t) \<Rightarrow> Some (s, [Handled n None (f_params m)], Some t)
           | ([], Return v) \<Rightarrow> Some (s, [Handled n None (f_params m)], None))
      | OnReady \<Rightarrow> onReady c s (f_params m)
      | Builtin name \<Rightarrow>
          (case call_inherited name (regTbl s ''null'' \<noteq> None) of
             Throw t \<Rightarrow> Some (s, [], Some t)
           | Return v \<Rightarrow> Some (s, [], None)))"

definition dispatch :: "config \<Rightarrow> env \<Rightarrow> chan \<Rightarrow> frame \<Rightarrow> outcome option" where
  "dispatch c en s m =
     (case (m_id m, m_method m) of
        (Some i, Some mth) \<Rightarrow>
          (case reg_get s mth of
             Some h \<Rightarrow> on_request c en s m i h
           | None \<Rightarrow> Some (s, [], None))
      | _ \<Rightarrow>
        (case (m_id m, m_callback m) of
           (Some i, Some cb) \<Rightarrow> Some (on_progress s m i cb)
         | _ \<Rightarrow>
           (case m_id m of
              Some i \<Rightarrow>
                if typeof (f_result m) \<noteq> TUndefined \<or> truthy (f_error m)
                then Some (on_response s m i)
                else (case m_method m of
                        Some mth \<Rightarrow>
                          (case reg_get s mth of
                             Some h \<Rightarrow> on_notification c en s m h
                           | None \<Rightarrow> Some (s, [], None))
                      | None \<Rightarrow> Some (s, [], None))
            | None \<Rightarrow>
                (case m_method m of
                   Some mth \<Rightarrow>
                     (case reg_get s mth of
                        Some h \<Rightarrow> on_notification c en s m h
                      | None \<Rightarrow> Some (s, [], None))
                 | None \<Rightarrow> Some (s, [], None)))))"

definition onMessage :: "config \<Rightarrow> env \<Rightarrow> chan \<Rightarrow> event \<Rightarrow> outcome option" where
  "onMessage c en s ev =
     (if origin s \<noteq> Some ''*'' \<and> origin s \<noteq> Some (ev_origin ev) then Some (s, [], None)
      else case ev_data ev of
             Unparseable \<Rightarrow> Some (s, [], Some (JError ''SyntaxError''))
           | Primitive \<Rightarrow> Some (s, [], None)
           | NullValue \<Rightarrow> Some (s, [], Some (JError ''TypeError''))
           | Obj m \<Rightarrow>
               (case descope c (f_method m) of
                  None \<Rightarrow> Some (s, [], None)
                | Some um \<Rightarrow>
                    (case dispatch c en s (m\<lparr>f_method := um\<rparr>) of
                       None \<Rightarrow> None
                     | Some (s', es, x) \<Rightarrow>
                         Some (s', (if cfg_gotMessageObserver c then [GotObserved m] else []) @ es, x))))"

text \<open>The listener is attached at build time and detached by \<^verbatim>\<open>destroy\<close>.\<close>

definition deliver :: "config \<Rightarrow> env \<Rightarrow> chan \<Rightarrow> event \<Rightarrow> outcome option" where
  "deliver c en s ev = (if listening s then onMessage c en s ev else Some (s, [], None))"

subsection \<open>The public object\<close>

text \<open>
  \<^verbatim>\<open>obj.hasOwnProperty(k)\<close> for an own key \<open>k\<close> of \<^verbatim>\<open>obj\<close>, where \<open>hop\<close> is the own
  property \<^verbatim>\<open>hasOwnProperty\<close> of \<^verbatim>\<open>obj\<close>, if it has one. Without one the inherited
  function answers \<^verbatim>\<open>true\<close>. A function of the application is called and its answer
  taken; a synthetic callable sends \<open>k\<close> as a progress frame and answers
  \<^verbatim>\<open>undefined\<close>; any other value is not callable.
\<close>

definition has_own ::
  "config \<Rightarrow> env \<Rightarrow> chan \<Rightarrow> jsval option \<Rightarrow> string \<Rightarrow> chan \<times> effect list \<times> (jsval + bool)" where
  "has_own c en s hop k =
     (case hop of
        None \<Rightarrow> (s, [], Inr True)
      | Some (JFun (AppFn n)) \<Rightarrow>
          (case fn_run en n [JStr k] of
             Return v \<Rightarrow> (s, [Asked (AppFn n) k], Inr (truthy v))
           | Throw t \<Rightarrow> (s, [Asked (AppFn n) k], Inl t))
      | Some (JFun (Proxy i path)) \<Rightarrow>
          (case trans_invoke c s i [path] path (JStr k) of
             (s', es, Some t) \<Rightarrow> (s', es, Inl t)
           | (s', es, None) \<Rightarrow> (s', es, Inr False))
      | Some v \<Rightarrow> (s, [], Inl (JError ''TypeError'')))"

text \<open>
  \<^verbatim>\<open>pruneFunctions(path, obj)\<close> of \<^verbatim>\<open>call\<close>. The source appends to
  \<^verbatim>\<open>callbackNames\<close> and stores into \<^verbatim>\<open>callbacks\<close> as it walks; the model returns
  the pruned value and the pairs \<open>(np, obj[k])\<close> in the order they were found, or the
  value thrown on the way. \<open>hop\<close> is the own property \<^verbatim>\<open>hasOwnProperty\<close> of the object
  being walked: it is there until the walk deletes it. \<^verbatim>\<open>null\<close> and error objects have
  type \<^verbatim>\<open>object\<close> and nothing to enumerate.
\<close>

definition np :: "string \<Rightarrow> string \<Rightarrow> string" where
  "np path k = path @ (if path \<noteq> [] then ''/'' else []) @ k"

fun pruneFunctions ::
    "config \<Rightarrow> env \<Rightarrow> string \<Rightarrow> jsval \<Rightarrow> chan
       \<Rightarrow> chan \<times> effect list \<times> (jsval + jsval \<times> (string \<times> fnref) list)"
  and pruneProps ::
    "config \<Rightarrow> env \<Rightarrow> string \<Rightarrow> jsval option \<Rightarrow> (string \<times> jsval) list \<Rightarrow> chan
       \<Rightarrow> chan \<times> effect list \<times> (jsval + (string \<times> jsval) list \<times> (string \<times> fnref) list)"
where
  "pruneFunctions c en path (JObj a kvs) s =
     (case pruneProps c en path (map_of kvs ''hasOwnProperty'') kvs s of
        (s1, es, Inl t) \<Rightarrow> (s1, es, Inl t)
      | (s1, es, Inr (kvs', fs)) \<Rightarrow> (s1, es, Inr (JObj a kvs', fs)))"
| "pruneFunctions c en path v s = (s, [], Inr (v, []))"
| "pruneProps c en path hop [] s = (s, [], Inr ([], []))"
| "pruneProps c en path hop ((k, v) # rest) s =
     (case has_own c en s hop k of
        (s1, e1, Inl t) \<Rightarrow> (s1, e1, Inl t)
      | (s1, e1, Inr False) \<Rightarrow>
          (case pruneProps c en path hop rest s1 of
             (s2, e2, Inl t) \<Rightarrow> (s2, e1 @ e2, Inl t)
           | (s2, e2, Inr (rest', fs)) \<Rightarrow> (s2, e1 @ e2, Inr ((k, v) # rest', fs)))
      | (s1, e1, Inr True) \<Rightarrow>
          (case v of
             JFun f \<Rightarrow>
               (case pruneProps c en path (if k = ''hasOwnProperty'' then None else hop) rest s1 of
                  (s2, e2, Inl t) \<Rightarrow> (s2, e1 @ e2, Inl t)
                | (s2, e2, Inr (rest', fs)) \<Rightarrow> (s2, e1 @ e2, Inr (rest', (np path k, f) # fs)))
           | _ \<Rightarrow>
               if typeof v = TObject
               then (case pruneFunctions c en (np path k) v s1 of
                       (s2, e2, Inl t) \<Rightarrow> (s2, e1 @ e2, Inl t)
                     | (s2, e2, Inr (v', fs1)) \<Rightarrow>
                         (case pruneProps c en path hop rest s2 of
                            (s3, e3, Inl t) \<Rightarrow> (s3, e1 @ e2 @ e3, Inl t)
                          | (s3, e3, Inr (rest', fs2)) \<Rightarrow>
                              (s3, e1 @ e2 @ e3, Inr ((k, v') # rest', fs1 @ fs2))))
               else (case pruneProps c en path hop rest s1 of
                       (s2, e2, Inl t) \<Rightarrow> (s2, e1 @ e2, Inl t)
                     | (s2, e2, Inr (rest', fs)) \<Rightarrow> (s2, e1 @ e2, Inr ((k, v) # rest', fs)))))"

definition call ::
  "config \<Rightarrow> env \<Rightarrow> chan \<Rightarrow> string \<Rightarrow> jsval \<Rightarrow> fnref option \<Rightarrow> fnref option \<Rightarrow> outcome" where
  "call c en s method params success error =
     (if method = [] then (s, [], Some (JStr ([CHR 0x27] @ ''method'' @ [CHR 0x27] @ '' argument to call must be string'')))
      else case success of
        None \<Rightarrow> (s, [], Some (JStr ([CHR 0x27] @ ''success'' @ [CHR 0x27] @ '' callback missing from call'')))
      | Some su \<Rightarrow>
          (case pruneFunctions c en [] params s of
             (s0, e0, Inl t) \<Rightarrow> (s0, e0, Some t)
           | (s0, e0, Inr (params', fs)) \<Rightarrow>
               (let msg = empty_frame\<lparr> f_id := Some (curTranId s0),
                            f_method := Some (scopeMethod c method), f_params := params',
                            f_callbacks := (if map fst fs \<noteq> [] then Some (map fst fs) else None) \<rparr>;
                    s1 = s0\<lparr>tranTbl := (tranTbl s0)(curTranId s0 \<mapsto> Out (callbacks_of fs) error su)\<rparr>;
                    s2 = s1\<lparr>curTranId := curTranId s1 + 2\<rparr>
                in case postMessage c s2 msg False of (s3, es) \<Rightarrow> (s3, e0 @ es, None))))"

text \<open>
  \<^verbatim>\<open>Channel.build\<close>: the checks on \<^verbatim>\<open>cfg.origin\<close> and \<^verbatim>\<open>cfg.scope\<close>, and the
  initial state. \<open>canon_origin\<close> is the match of
  \<^verbatim>\<open>/^https?:\/\/(?:[-a-zA-Z0-9\.])+(?::\d+)?/\<close>. The two random draws of the source are
  the arguments \<open>token\<close> and \<open>r\<close> (\<^verbatim>\<open>Math.floor(Math.random()*1000001)\<close>).
\<close>

definition is_host_char :: "char \<Rightarrow> bool" where
  "is_host_char ch =
     (let n = (of_char ch :: nat)
      in ch = CHR ''-'' \<or> ch = CHR ''.'' \<or> (97 \<le> n \<and> n \<le> 122) \<or> (65 \<le> n \<and> n \<le> 90) \<or> (48 \<le> n \<and> n \<le> 57))"

definition canon_origin :: "string \<Rightarrow> string option" where
  "canon_origin s =
     (let scheme = (if prefix ''https://'' s then Some ''https://''
                    else if prefix ''http://'' s then Some ''http://'' else None)
      in case scheme of
           None \<Rightarrow> None
         | Some sch \<Rightarrow>
             (let rest = drop (length sch) s;
                  host = takeWhile is_host_char rest;
                  after = dropWhile is_host_char rest;
                  port = (case after of
                            ch # ds \<Rightarrow>
                              if ch = CHR '':'' \<and> takeWhile is_digit ds \<noteq> []
                              then CHR '':'' # takeWhile is_digit ds else []
                          | [] \<Rightarrow> [])
              in if host = [] then None else Some (sch @ host @ port)))"

definition initial :: "string \<Rightarrow> string \<Rightarrow> nat \<Rightarrow> chan" where
  "initial o' token r =
     \<lparr> regTbl = [''__ready'' \<mapsto> OnReady], tranTbl = Map.empty, curTranId = or r 1,
       ready = False, pendingQueue = [], chanId = token, origin = Some o', listening = True \<rparr>"

definition build :: "string \<Rightarrow> config \<Rightarrow> string \<Rightarrow> nat \<Rightarrow> jsval + chan" where
  "build orig c token r =
     (case (if orig = ''*'' then Some ''*'' else canon_origin orig) of
        None \<Rightarrow> Inl (JStr ''Channel.build() called with an invalid origin'')
      | Some o' \<Rightarrow>
          (case cfg_scope c of
             Some sc \<Rightarrow>
               if length (split_str ''::'' sc) > 1
               then Inl (JStr ''scope may not contain double colons'')
               else Inr (initial o' token r)
           | None \<Rightarrow> Inr (initial o' token r)))"

text \<open>The timer set at the end of \<^verbatim>\<open>build\<close>: the forced \<^verbatim>\<open>ping\<close>.\<close>

definition send_ping :: "config \<Rightarrow> chan \<Rightarrow> chan \<times> effect list" where
  "send_ping c s =
     postMessage c s
       (empty_frame\<lparr>f_method := Some (scopeMethod c ''__ready''), f_params := JStr ''ping''\<rparr>) True"

subsection \<open>Observations and sequences of operations\<close>

definition fired :: "effect list \<Rightarrow> (fnref \<times> jsval list) list" where
  "fired es = concat (map (\<lambda>e. case e of Fired f args \<Rightarrow> [(f, args)] | _ \<Rightarrow> []) es)"

text \<open>The transaction table holds no outbound record under \<open>i\<close>: unknown id or wrong direction.\<close>

definition no_outbound :: "chan \<Rightarrow> nat \<Rightarrow> bool" where
  "no_outbound s i = (case tranTbl s i of Some (Out cbs er su) \<Rightarrow> False | _ \<Rightarrow> True)"

definition undeclared_callback :: "chan \<Rightarrow> nat \<Rightarrow> string \<Rightarrow> bool" where
  "undeclared_callback s i cb =
     (case tranTbl s i of
        Some (Out cbs er su) \<Rightarrow> cbs cb = None \<and> cb \<notin> set object_prototype
      | _ \<Rightarrow> False)"

text \<open>A finished transaction: the table is as before or has lost the entry \<open>i\<close>.\<close>

definition tbl_step :: "nat \<Rightarrow> (nat \<rightharpoonup> tran) \<Rightarrow> (nat \<rightharpoonup> tran) \<Rightarrow> bool" where
  "tbl_step i T T' = (T' = T \<or> T' = T(i := None))"





text \<open>
  The effects that are not the consultation of an application's own
  \<^verbatim>\<open>hasOwnProperty\<close>: frames sent, handlers run, continuations and callbacks fired,
  observers called.
\<close>

definition is_asked :: "effect \<Rightarrow> bool" where
  "is_asked e = (case e of Asked f k \<Rightarrow> True | _ \<Rightarrow> False)"

definition acted :: "effect list \<Rightarrow> effect list" where
  "acted es = filter (\<lambda>e. \<not> is_asked e) es"

text \<open>A value none of whose objects has an own property \<^verbatim>\<open>hasOwnProperty\<close>.\<close>

fun plain :: "jsval \<Rightarrow> bool"
  and plain_props :: "(string \<times> jsval) list \<Rightarrow> bool"
where
  "plain (JObj a kvs) = plain_props kvs"
| "plain v = True"
| "plain_props [] = True"
| "plain_props ((k, v) # rest) = (k \<noteq> ''hasOwnProperty'' \<and> plain v \<and> plain_props rest)"


subsection \<open>Two channels and the frames in flight between them\<close>

record sys =
  peerA :: chan
  peerB :: chan
  toA :: "frame list"
  toB :: "frame list"

datatype sysev = PingA | PingB | DeliverA | DeliverB | CallA string | CallB string

definition sys_step :: "config \<Rightarrow> env \<Rightarrow> sys \<Rightarrow> sysev \<Rightarrow> sys option" where
  "sys_step c en y e =
     (case e of
        PingA \<Rightarrow>
          (case send_ping c (peerA y) of
             (s', es) \<Rightarrow> Some (y\<lparr>peerA := s', toB := toB y @ map wire_frame (sent es)\<rparr>))
      | PingB \<Rightarrow>
          (case send_ping c (peerB y) of
             (s', es) \<Rightarrow> Some (y\<lparr>peerB := s', toA := toA y @ map wire_frame (sent es)\<rparr>))
      | DeliverA \<Rightarrow>
          (case toA y of
             [] \<Rightarrow> Some y
           | m # rest \<Rightarrow>
               (case deliver c en (peerA y) \<lparr>ev_origin = ''b'', ev_data = Obj m\<rparr> of
                  None \<Rightarrow> None
                | Some (s', es, x) \<Rightarrow>
                    Some (y\<lparr>peerA := s', toA := rest,
                            toB := toB y @ map wire_frame (sent es)\<rparr>)))
      | DeliverB \<Rightarrow>
          (case toB y of
             [] \<Rightarrow> Some y
           | m # rest \<Rightarrow>
               (case deliver c en (peerB y) \<lparr>ev_origin = ''a'', ev_data = Obj m\<rparr> of
                  None \<Rightarrow> None
                | Some (s', es, x) \<Rightarrow>
                    Some (y\<lparr>peerB := s', toB := rest,
                            toA := toA y @ map wire_frame (sent es)\<rparr>)))
      | CallA mth \<Rightarrow>
          (case call c en (peerA y) mth JNull (Some (AppFn 0)) None of
             (s', es, x) \<Rightarrow> Some (y\<lparr>peerA := s', toB := toB y @ map wire_frame (sent es)\<rparr>))
      | CallB mth \<Rightarrow>
          (case call c en (peerB y) mth JNull (Some (AppFn 0)) None of
             (s', es, x) \<Rightarrow> Some (y\<lparr>peerB := s', toA := toA y @ map wire_frame (sent es)\<rparr>)))"

fun sys_run :: "config \<Rightarrow> env \<Rightarrow> sys \<Rightarrow> sysev list \<Rightarrow> sys option" where
  "sys_run c en y [] = Some y"
| "sys_run c en y (e # es) =
     (case sys_step c en y e of None \<Rightarrow> None | Some y' \<Rightarrow> sys_run c en y' es)"

subsection \<open>A concrete channel\<close>

text \<open>
  A host whose serialiser handles the primitive values and fails on the others, and an
  application with six handlers: 1 returns its parameters, 2 throws them, 3 delays its
  return, 4 invokes the callback \<^verbatim>\<open>cb\<close> and returns, 6 delays its return, invokes
  the callback \<^verbatim>\<open>cb\<close> and throws \<^verbatim>\<open>late\<close>, and every other one invokes the
  callback with the empty name and returns. Its functions return \<^verbatim>\<open>undefined\<close> when
  the pruning walk calls them.
\<close>

definition stringify0 :: "jsval \<Rightarrow> jsval option" where
  "stringify0 v =
     (case v of
        JNull \<Rightarrow> Some (JStr ''null'')
      | JBool b \<Rightarrow> Some (JStr (if b then ''true'' else ''false''))
      | JNum n \<Rightarrow> Some (JStr ((if n < 0 then ''-'' else []) @ show_nat (nat \<bar>n\<bar>)))
      | JUndef \<Rightarrow> Some JUndef
      | JFun f \<Rightarrow> Some JUndef
      | _ \<Rightarrow> None)"

definition env0 :: env where
  "env0 = \<lparr> json_stringify = stringify0, to_string = (\<lambda>v. JStr ''[object Object]''),
     handler_run = (\<lambda>n t p.
        if n = 1 then ([], Return p)
        else if n = 2 then ([], Throw p)
        else if n = 3 then ([DelayReturn (JBool True)], Return JUndef)
        else if n = 4 then ([Invoke ''cb'' p], Return (JStr ''done''))
        else if n = 6 then ([DelayReturn (JBool True), Invoke ''cb'' p], Throw (JStr ''late''))
        else ([Invoke [] (JNum 7)], Return (JStr ''done''))),
     fn_run = (\<lambda>n args. Return JUndef) \<rparr>"


definition cfg0 :: config where
  "cfg0 = \<lparr> cfg_scope = None, cfg_postMessageObserver = False,
     cfg_gotMessageObserver = False, cfg_onReady = False \<rparr>"

definition pong_frame :: "config \<Rightarrow> frame" where
  "pong_frame c = empty_frame\<lparr>f_method := Some (scopeMethod c ''__ready''), f_params := JStr ''pong''\<rparr>"

text \<open>
  A channel with two application handlers bound and one call issued before the handshake,
  and some inbound events.
\<close>

definition chan1 :: chan where
  "chan1 = fst (call cfg0 env0 (fst (bind_handler (fst (bind_handler (initial ''*'' ''abcde'' 0) ''slow'' (App 3))) ''note'' (App 2)))
     ''m'' (JObj None [(''cb'', JFun (AppFn 1))]) (Some (AppFn 2)) None)"

definition req_unbound :: event where
  "req_unbound = \<lparr>ev_origin = ''https://peer.example'',
     ev_data = Obj (empty_frame\<lparr>f_id := Some 4, f_method := Some ''nope''\<rparr>)\<rparr>"

definition progress_undeclared :: event where
  "progress_undeclared = \<lparr>ev_origin = ''https://peer.example'',
     ev_data = Obj (empty_frame\<lparr>f_id := Some 1, f_callback := Some ''other''\<rparr>)\<rparr>"

definition response_unknown :: event where
  "response_unknown = \<lparr>ev_origin = ''https://peer.example'',
     ev_data = Obj (empty_frame\<lparr>f_id := Some 9, f_result := JNum 1\<rparr>)\<rparr>"


definition req_collide :: event where
  "req_collide = \<lparr>ev_origin = ''https://peer.example'',
     ev_data = Obj (empty_frame\<lparr>f_id := Some 1, f_method := Some ''slow''\<rparr>)\<rparr>"

definition note_boom :: event where
  "note_boom = \<lparr>ev_origin = ''https://peer.example'',
     ev_data = Obj (empty_frame\<lparr>f_method := Some ''note'', f_params := JStr ''boom''\<rparr>)\<rparr>"

definition ping_event :: event where
  "ping_event = \<lparr>ev_origin = ''https://peer.example'',
     ev_data = Obj (empty_frame\<lparr>f_method := Some ''__ready'', f_params := JStr ''ping''\<rparr>)\<rparr>"

text \<open>The same channel after it has received the \<^verbatim>\<open>ping\<close> of its peer.\<close>

definition chan2 :: chan where
  "chan2 = (case onMessage cfg0 env0 chan1 ping_event of Some (s, es, x) \<Rightarrow> s | None \<Rightarrow> chan1)"

definition req_inherited :: event where
  "req_inherited = \<lparr>ev_origin = ''https://peer.example'',
     ev_data = Obj (empty_frame\<lparr>f_id := Some 9, f_method := Some ''toString''\<rparr>)\<rparr>"

definition req_inherited_collide :: event where
  "req_inherited_collide = \<lparr>ev_origin = ''https://peer.example'',
     ev_data = Obj (empty_frame\<lparr>f_id := Some 1, f_method := Some ''valueOf''\<rparr>)\<rparr>"



definition req_fail :: event where
  "req_fail = \<lparr>ev_origin = ''https://peer.example'',
     ev_data = Obj (empty_frame\<lparr>f_id := Some 8, f_method := Some ''note'', f_params := JStr ''boom''\<rparr>)\<rparr>"

text \<open>
  Two channels built before either \<^verbatim>\<open>ping\<close> is delivered, and the run in which each
  receives the \<^verbatim>\<open>ping\<close> of the other.
\<close>

definition sys0 :: sys where
  "sys0 = \<lparr> peerA = initial ''*'' ''aaaaa'' 4, peerB = initial ''*'' ''bbbbb'' 5, toA = [], toB = [] \<rparr>"

definition symmetric_handshake :: "sysev list" where
  "symmetric_handshake = [PingA, PingB, DeliverB, DeliverA, DeliverB, DeliverA]"

subsection \<open>Parameter trees and their paths\<close>

text \<open>
  The value found in a tree under a sequence of keys (\<^verbatim>\<open>undefined\<close> where the walk
  leaves the tree), and a value as far as a reader of one position sees it: a primitive or
  a function as it is, an object as an object.
\<close>

fun lookup :: "jsval \<Rightarrow> string list \<Rightarrow> jsval" where
  "lookup v [] = v"
| "lookup v (k # ks) = (case v of JObj a kvs \<Rightarrow> lookup (own_prop kvs k) ks | _ \<Rightarrow> JUndef)"





text \<open>
  The walk of \<open>pruneFunctions\<close> through a value none of whose objects has an own property
  \<^verbatim>\<open>hasOwnProperty\<close>: every test \<^verbatim>\<open>obj.hasOwnProperty(k)\<close> is answered
  \<^verbatim>\<open>true\<close> by the inherited function, so the walk neither touches the state nor throws.
\<close>

fun prune :: "string \<Rightarrow> jsval \<Rightarrow> jsval \<times> (string \<times> fnref) list"
  and prune_props :: "string \<Rightarrow> (string \<times> jsval) list \<Rightarrow> (string \<times> jsval) list \<times> (string \<times> fnref) list"
where
  "prune path (JObj a kvs) = (case prune_props path kvs of (kvs', fs) \<Rightarrow> (JObj a kvs', fs))"
| "prune path v = (v, [])"
| "prune_props path [] = ([], [])"
| "prune_props path ((k, v) # rest) =
     (case v of
        JFun f \<Rightarrow> (case prune_props path rest of (rest', fs) \<Rightarrow> (rest', (np path k, f) # fs))
      | _ \<Rightarrow>
          (if typeof v = TObject
           then case prune (np path k) v of (v', fs1) \<Rightarrow>
                  (case prune_props path rest of (rest', fs2) \<Rightarrow> ((k, v') # rest', fs1 @ fs2))
           else case prune_props path rest of (rest', fs) \<Rightarrow> ((k, v) # rest', fs)))"

text \<open>
  \<open>install_callbacks\<close> with the paths already split, and the walk without the list of
  paths: the forms the proofs work with.
\<close>

fun install_all :: "nat \<Rightarrow> (string list \<times> string) list \<Rightarrow> jsval \<Rightarrow> jsval + jsval" where
  "install_all i [] p = Inr p"
| "install_all i ((ks, name) # rest) p =
     (case install_items ks (JFun (Proxy i name)) p of
        Inl t \<Rightarrow> Inl t
      | Inr p' \<Rightarrow> install_all i rest p')"




definition is_obj :: "jsval \<Rightarrow> bool" where
  "is_obj v = (case v of JObj a kvs \<Rightarrow> True | _ \<Rightarrow> False)"


text \<open>
  The request frame \<^verbatim>\<open>call\<close> builds and the state it leaves before posting, when the
  walk is the plain one; the progress frame \<^verbatim>\<open>trans.invoke\<close> posts.
\<close>

definition call_frame :: "config \<Rightarrow> chan \<Rightarrow> string \<Rightarrow> jsval \<Rightarrow> frame" where
  "call_frame c s method params =
     empty_frame\<lparr> f_id := Some (curTranId s), f_method := Some (scopeMethod c method),
       f_params := fst (prune [] params),
       f_callbacks := (if map fst (snd (prune [] params)) \<noteq> []
                       then Some (map fst (snd (prune [] params))) else None) \<rparr>"

definition call_record :: "chan \<Rightarrow> jsval \<Rightarrow> fnref \<Rightarrow> fnref option \<Rightarrow> chan" where
  "call_record s params su er =
     s\<lparr> tranTbl := (tranTbl s)(curTranId s \<mapsto> Out (callbacks_of (snd (prune [] params))) er su),
        curTranId := curTranId s + 2 \<rparr>"



definition params_shadow :: jsval where
  "params_shadow = JObj None [(''hasOwnProperty'', JNum 1), (''cb'', JFun (AppFn 1))]"

definition params_asked :: jsval where
  "params_asked = JObj None [(''hasOwnProperty'', JFun (AppFn 7)), (''cb'', JFun (AppFn 1))]"






subsection \<open>The flush loop\<close>

lemma flush_ready_aux:
  "ready s \<Longrightarrow> pendingQueue s = q \<Longrightarrow>
   flush c s = Some (s\<lparr>pendingQueue := []\<rparr>, concat (map (post_effects c) (rev q)))"
proof (induction q arbitrary: s rule: rev_induct)
  case Nil
  then show ?case by (subst flush.simps) simp
next
  case (snoc x xs)
  let ?s1 = "s\<lparr>pendingQueue := xs\<rparr>"
  have r: "ready ?s1" and q: "pendingQueue ?s1 = xs" using snoc.prems by simp_all
  have ih: "flush c ?s1 = Some (?s1\<lparr>pendingQueue := []\<rparr>, concat (map (post_effects c) (rev xs)))"
    by (rule snoc.IH [OF r q])
  show ?case
    using snoc.prems ih
    by (subst flush.simps) (simp add: postMessage_def post_effects_def)
qed

lemma flush_ready:
  "ready s \<Longrightarrow>
   flush c s = Some (s\<lparr>pendingQueue := []\<rparr>, concat (map (post_effects c) (rev (pendingQueue s))))"
  by (rule flush_ready_aux) simp_all

subsection \<open>The handshake handler\<close>

lemma reg_get_own [simp]: "regTbl s m = Some h \<Longrightarrow> reg_get s m = Some h"
  by (simp add: reg_get_def)

lemma reg_get_fresh [simp]:
  "regTbl s m = None \<Longrightarrow> m \<notin> set object_prototype \<Longrightarrow> reg_get s m = None"
  by (simp add: reg_get_def)

lemma reg_get_inherited [simp]:
  "regTbl s m = None \<Longrightarrow> m \<in> set object_prototype \<Longrightarrow> reg_get s m = Some (Builtin m)"
  by (simp add: reg_get_def)

lemma unbind_fst: "fst (unbind s m) = s\<lparr>regTbl := (regTbl s)(m := None)\<rparr>"
  by (cases "regTbl s m") (auto simp: unbind_def reg_get_def fun_upd_idem)

lemma onReady_eq:
  assumes "\<not> ready s"
  shows "onReady c s ty =
    Some (s\<lparr> chanId := chanId s @ (if ty = JStr ''ping'' then ''-R'' else ''-L''),
             curTranId := (if ty = JStr ''ping'' then curTranId s + curTranId s mod 2
                           else curTranId s),
             regTbl := (regTbl s)(''__ready'' := None), ready := True, pendingQueue := [] \<rparr>,
          (if ty = JStr ''ping'' then post_effects c (pong_frame c) else []) @
          concat (map (post_effects c) (rev (pendingQueue s))) @
          (if cfg_onReady c then [ReadyObserved] else []),
          None)"
  using assms
  by (simp add: onReady_def unbind_fst notify_def postMessage_def flush_ready post_effects_def
      pong_frame_def Let_def)

lemma sent_append [simp]: "sent (xs @ ys) = sent xs @ sent ys"
  by (simp add: sent_def)

lemma sent_Nil [simp]: "sent [] = []"
  by (simp add: sent_def)

lemma sent_simps [simp]:
  "sent (Sent m # xs) = m # sent xs" "sent (Handled n t p # xs) = sent xs"
  "sent (PostObserved m # xs) = sent xs" "sent (GotObserved m # xs) = sent xs"
  "sent (ReadyObserved # xs) = sent xs" "sent (Fired f a # xs) = sent xs"
  "sent (Asked f k # xs) = sent xs"
  by (simp_all add: sent_def)

lemma sent_post_effects [simp]: "sent (post_effects c m) = [m]"
  by (simp add: sent_def post_effects_def)

lemma sent_flushed [simp]: "sent (concat (map (post_effects c) q)) = q"
  by (induction q) simp_all

text \<open>
  C2 (as the code has it). A channel that is not ready and whose \<^verbatim>\<open>__ready\<close> handler
  runs with the payload \<^verbatim>\<open>ping\<close> adds \<open>counter mod 2\<close> to its counter, which is even
  afterwards, takes the role tag \<^verbatim>\<open>-R\<close> and sends the \<^verbatim>\<open>pong\<close> notification
  first; with any other payload (\<^verbatim>\<open>pong\<close>) it leaves the counter as it is and takes
  the role tag \<^verbatim>\<open>-L\<close>, sending no \<^verbatim>\<open>pong\<close>. In both cases the handler is unbound,
  the channel is ready and the queue is empty afterwards.
\<close>

theorem C2_onReady_parity_and_role:
  assumes "\<not> ready s"
  shows "onReady c s (JStr ''ping'') =
           Some (s\<lparr> chanId := chanId s @ ''-R'', curTranId := curTranId s + curTranId s mod 2,
                    regTbl := (regTbl s)(''__ready'' := None), ready := True,
                    pendingQueue := [] \<rparr>,
                 post_effects c (pong_frame c) @
                 concat (map (post_effects c) (rev (pendingQueue s))) @
                 (if cfg_onReady c then [ReadyObserved] else []), None)
         \<and> even (curTranId s + curTranId s mod 2)
         \<and> (ty \<noteq> JStr ''ping'' \<longrightarrow>
              onReady c s ty =
                Some (s\<lparr> chanId := chanId s @ ''-L'', curTranId := curTranId s,
                         regTbl := (regTbl s)(''__ready'' := None), ready := True,
                         pendingQueue := [] \<rparr>,
                      concat (map (post_effects c) (rev (pendingQueue s))) @
                      (if cfg_onReady c then [ReadyObserved] else []), None))"
proof -
  have "even (curTranId s + curTranId s mod 2)" by presburger
  then show ?thesis using assms by (simp add: onReady_eq)
qed

theorem C2_onReady_parity_and_role_witness:
  "\<not> ready (initial ''*'' ''abcde'' 0)
   \<and> map_option (curTranId \<circ> fst) (onReady cfg0 (initial ''*'' ''abcde'' 0) (JStr ''ping'')) = Some 2
   \<and> map_option (sent \<circ> fst \<circ> snd) (onReady cfg0 (initial ''*'' ''abcde'' 0) (JStr ''ping''))
       = Some [pong_frame cfg0]
   \<and> map_option (curTranId \<circ> fst) (onReady cfg0 (initial ''*'' ''abcde'' 0) (JStr ''pong'')) = Some 1"
proof -
  have h: "\<not> ready (initial ''*'' ''abcde'' 0)" by (simp add: initial_def)
  show ?thesis
    using C2_onReady_parity_and_role [OF h, of cfg0 "JStr ''pong''"] h
    by (simp add: initial_def cfg0_def)
qed

text \<open>
  C2 as stated fails: started with the odd counter 1, the channel that receives
  \<^verbatim>\<open>ping\<close> ends with the even counter 2, and the one that receives \<^verbatim>\<open>pong\<close>
  keeps the odd counter 1.
\<close>

theorem C2_counterexample:
  "map_option (curTranId \<circ> fst) (onReady cfg0 (initial ''*'' ''abcde'' 0) (JStr ''ping'')) = Some 2
   \<and> map_option (curTranId \<circ> fst) (onReady cfg0 (initial ''*'' ''abcde'' 0) (JStr ''pong'')) = Some 1"
  by (simp add: onReady_eq initial_def cfg0_def)

text \<open>
  C3, at a failing input: two notifications issued before the handshake are queued in
  the order of issue, and the flush sends the second one first.
\<close>

theorem C3_flush_is_lifo:
  "pendingQueue (fst (notify cfg0 (fst (notify cfg0 (initial ''*'' ''abcde'' 0) ''first'' JNull))
       ''second'' JNull))
     = [empty_frame\<lparr>f_method := Some ''first'', f_params := JNull\<rparr>,
        empty_frame\<lparr>f_method := Some ''second'', f_params := JNull\<rparr>]
   \<and> map_option (sent \<circ> fst \<circ> snd)
       (onReady cfg0
          (fst (notify cfg0 (fst (notify cfg0 (initial ''*'' ''abcde'' 0) ''first'' JNull))
             ''second'' JNull))
          (JStr ''pong''))
     = Some [empty_frame\<lparr>f_method := Some ''second'', f_params := JNull\<rparr>,
             empty_frame\<lparr>f_method := Some ''first'', f_params := JNull\<rparr>]"
  by (simp add: onReady_eq notify_def postMessage_def initial_def scopeMethod_def cfg0_def)

subsection \<open>Dispatch\<close>

lemma m_id_method_upd [simp]: "m_id (m\<lparr>f_method := um\<rparr>) = m_id m"
  by (simp add: m_id_def)

lemma m_callback_method_upd [simp]: "m_callback (m\<lparr>f_method := um\<rparr>) = m_callback m"
  by (simp add: m_callback_def)

lemma dispatch_request:
  "m_id m = Some i \<Longrightarrow> m_method m = Some mth \<Longrightarrow>
   dispatch c en s m = (case reg_get s mth of Some h \<Rightarrow> on_request c en s m i h | None \<Rightarrow> Some (s, [], None))"
  by (simp add: dispatch_def)

lemma dispatch_progress:
  "m_id m = Some i \<Longrightarrow> m_method m = None \<Longrightarrow> m_callback m = Some cb \<Longrightarrow>
   dispatch c en s m = Some (on_progress s m i cb)"
  by (simp add: dispatch_def)

lemma dispatch_response:
  "m_id m = Some i \<Longrightarrow> m_method m = None \<Longrightarrow> m_callback m = None \<Longrightarrow>
   typeof (f_result m) \<noteq> TUndefined \<or> truthy (f_error m) \<Longrightarrow>
   dispatch c en s m = Some (on_response s m i)"
  by (simp add: dispatch_def)

lemma dispatch_notification:
  "m_id m = None \<Longrightarrow> m_method m = Some mth \<Longrightarrow>
   dispatch c en s m = (case reg_get s mth of Some h \<Rightarrow> on_notification c en s m h | None \<Rightarrow> Some (s, [], None))"
  by (simp add: dispatch_def)

lemma onMessage_accepted:
  "origin s = Some ''*'' \<or> origin s = Some (ev_origin ev) \<Longrightarrow> ev_data ev = Obj m \<Longrightarrow>
   descope c (f_method m) = Some um \<Longrightarrow>
   onMessage c en s ev =
     (case dispatch c en s (m\<lparr>f_method := um\<rparr>) of
        None \<Rightarrow> None
      | Some (s', es, x) \<Rightarrow>
          Some (s', (if cfg_gotMessageObserver c then [GotObserved m] else []) @ es, x))"
  by (auto simp: onMessage_def)

lemma onMessage_rejected:
  "origin s \<noteq> Some ''*'' \<Longrightarrow> origin s \<noteq> Some (ev_origin ev) \<Longrightarrow>
   onMessage c en s ev = Some (s, [], None)"
  by (simp add: onMessage_def)

subsection \<open>The pruning walk\<close>

lemma plain_props_no_hop: "plain_props kvs \<Longrightarrow> map_of kvs ''hasOwnProperty'' = None"
  by (induction kvs) auto

lemma has_own_inherited [simp]: "has_own c en s None k = (s, [], Inr True)"
  by (simp add: has_own_def)

lemma prune_plain_aux:
  "plain v \<longrightarrow> (\<forall>s. pruneFunctions c en p v s = (s, [], Inr (prune p v)))"
  "plain_props kvs \<longrightarrow> (\<forall>s. pruneProps c en p None kvs s = (s, [], Inr (prune_props p kvs)))"
  by (induction p v and p kvs rule: prune_prune_props.induct)
     (auto simp: plain_props_no_hop split: prod.splits jsval.splits)

lemma prune_plain: "plain v \<Longrightarrow> pruneFunctions c en p v s = (s, [], Inr (prune p v))"
  by (simp add: prune_plain_aux)

lemma call_eq:
  "mth \<noteq> [] \<Longrightarrow> plain params \<Longrightarrow>
   call c en s mth params (Some su) er =
     (case postMessage c (call_record s params su er) (call_frame c s mth params) False of
        (s3, es) \<Rightarrow> (s3, es, None))"
  by (simp add: call_def prune_plain call_frame_def call_record_def Let_def split: prod.splits)

subsection \<open>The examples\<close>

lemma build_example:
  "build ''https://x.example:8080/path?q'' cfg0 ''abcde'' 0 = Inr (initial ''https://x.example:8080'' ''abcde'' 0)"
  by (simp add: build_def canon_origin_def cfg0_def is_host_char_def is_digit_def Let_def)

lemma chan1_eq:
  "chan1 = \<lparr> regTbl = [''__ready'' \<mapsto> OnReady, ''slow'' \<mapsto> App 3, ''note'' \<mapsto> App 2],
     tranTbl = [1 \<mapsto> Out [''cb'' \<mapsto> AppFn 1] None (AppFn 2)], curTranId = 3, ready = False,
     pendingQueue = [empty_frame\<lparr>f_id := Some 1, f_method := Some ''m'', f_params := JObj None [],
        f_callbacks := Some [''cb'']\<rparr>],
     chanId = ''abcde'', origin = Some ''*'', listening = True \<rparr>"
  by (simp add: chan1_def call_eq call_frame_def call_record_def np_def bind_handler_def reg_get_def
      object_prototype_def initial_def postMessage_def scopeMethod_def cfg0_def callbacks_of_def)


lemmas ex_defs = descope_def cfg0_def m_id_def m_method_def m_callback_def empty_frame_def
  no_outbound_def undeclared_callback_def

lemma chan2_eq:
  "chan2 = \<lparr> regTbl = [''slow'' \<mapsto> App 3, ''note'' \<mapsto> App 2],
     tranTbl = [1 \<mapsto> Out [''cb'' \<mapsto> AppFn 1] None (AppFn 2)], curTranId = 4, ready = True,
     pendingQueue = [],
     chanId = ''abcde-R'', origin = Some ''*'', listening = True \<rparr>"
  by (simp add: chan2_def ping_event_def chan1_eq onMessage_accepted dispatch_notification on_notification_def onReady_eq reg_get_def ex_defs fun_upd_twist)

text \<open>
  Parameters that shadow \<^verbatim>\<open>hasOwnProperty\<close>: with a number there, \<^verbatim>\<open>call\<close> throws
  before it has recorded or sent anything; with a function of the application there (one
  that answers \<^verbatim>\<open>undefined\<close>), the function is asked for every key and nothing is
  pruned, so the callable under \<^verbatim>\<open>cb\<close> is neither declared nor recorded.
\<close>

lemma call_shadowed:
  "call cfg0 env0 chan2 ''m'' params_shadow (Some (AppFn 9)) None
     = (chan2, [], Some (JError ''TypeError''))
   \<and> call cfg0 env0 chan2 ''m'' params_asked (Some (AppFn 9)) None
     = (chan2\<lparr>tranTbl := (tranTbl chan2)(4 \<mapsto> Out Map.empty None (AppFn 9)), curTranId := 6\<rparr>,
        [Asked (AppFn 7) ''hasOwnProperty'', Asked (AppFn 7) ''cb'',
         Sent (empty_frame\<lparr>f_id := Some 4, f_method := Some ''m'', f_params := params_asked\<rparr>)],
        None)"
  by (simp add: call_def has_own_def params_shadow_def params_asked_def chan2_eq env0_def
      postMessage_def scopeMethod_def cfg0_def callbacks_of_def empty_frame_def Let_def)


subsection \<open>Origin filter\<close>

text \<open>
  C6. A frame whose sender identity differs from the configured origin, when that origin is
  not the wildcard, is dropped before it is parsed: the state is the same afterwards (registry,
  transaction table, ready flag, queue and all the rest), no handler ran and nothing was
  sent.
\<close>

theorem C6_origin_mismatch_no_change: "origin s \<noteq> Some ''*'' \<Longrightarrow> origin s \<noteq> Some (ev_origin ev) \<Longrightarrow> onMessage c en s ev = Some (s, [], None)"
  by (simp add: onMessage_def)

theorem C6_origin_mismatch_no_change_witness:
  "origin (initial ''https://x.example'' ''abcde'' 0) \<noteq> Some ''*''
   \<and> origin (initial ''https://x.example'' ''abcde'' 0)
       \<noteq> Some (ev_origin \<lparr>ev_origin = ''https://y.example'',
             ev_data = Obj (pong_frame cfg0)\<rparr>)
   \<and> onMessage cfg0 env0 (initial ''https://x.example'' ''abcde'' 0)
        \<lparr>ev_origin = ''https://y.example'', ev_data = Obj (pong_frame cfg0)\<rparr>
      = Some (initial ''https://x.example'' ''abcde'' 0, [], None)"
  using C6_origin_mismatch_no_change [of "initial ''https://x.example'' ''abcde'' 0"
      "\<lparr>ev_origin = ''https://y.example'', ev_data = Obj (pong_frame cfg0)\<rparr>" cfg0 env0]
  by (simp add: initial_def)

subsection \<open>Frames that match nothing\<close>

lemma on_progress_dropped:
  "no_outbound s i \<or> undeclared_callback s i cb \<Longrightarrow> on_progress s m i cb = (s, [], None)"
  by (auto simp: on_progress_def no_outbound_def undeclared_callback_def split: option.splits tran.splits)

lemma on_response_dropped:
  "no_outbound s i \<Longrightarrow> on_response s m i = (s, [], None)"
  by (auto simp: on_response_def no_outbound_def split: option.splits tran.splits)

text \<open>
  Names that \<^verbatim>\<open>Object.prototype\<close> does not define behave as intended. A request whose
  descoped method is such a name without a handler, a progress frame whose id is unknown,
  whose transaction is inbound or whose callback path is such a name that was not declared,
  and a final response whose id is unknown or whose transaction is inbound are dropped: the
  state is unchanged, no continuation and no handler is invoked and nothing is sent (the
  only effect is the observer tap, when one is configured and the origin passed).
\<close>

lemma unmatched_dropped:
  assumes d: "ev_data ev = Obj m"
    and u: "descope c (f_method m) = Some um"
    and h: "(m_id m = Some i \<and> m_method (m\<lparr>f_method := um\<rparr>) = Some mth \<and> regTbl s mth = None
               \<and> mth \<notin> set object_prototype)
       \<or> (m_id m = Some i \<and> m_method (m\<lparr>f_method := um\<rparr>) = None \<and> m_callback m = Some cb
             \<and> (no_outbound s i \<or> undeclared_callback s i cb))
       \<or> (m_id m = Some i \<and> m_method (m\<lparr>f_method := um\<rparr>) = None \<and> m_callback m = None
             \<and> (typeof (f_result m) \<noteq> TUndefined \<or> truthy (f_error m))
             \<and> no_outbound s i)"
  shows "onMessage c en s ev =
     Some (s, if (origin s = Some ''*'' \<or> origin s = Some (ev_origin ev)) \<and> cfg_gotMessageObserver c
              then [GotObserved m] else [], None)"
proof (cases "origin s = Some ''*'' \<or> origin s = Some (ev_origin ev)")
  case False
  then show ?thesis by (simp add: onMessage_rejected)
next
  case True
  let ?m = "m\<lparr>f_method := um\<rparr>"
  have "dispatch c en s ?m = Some (s, [], None)" (is ?g)
    using h
  proof (elim disjE)
    assume "m_id m = Some i \<and> m_method ?m = Some mth \<and> regTbl s mth = None
               \<and> mth \<notin> set object_prototype"
    then show ?g by (simp add: dispatch_request)
  next
    assume a: "m_id m = Some i \<and> m_method ?m = None \<and> m_callback m = Some cb
             \<and> (no_outbound s i \<or> undeclared_callback s i cb)"
    then have "dispatch c en s ?m = Some (on_progress s ?m i cb)"
      by (simp add: dispatch_progress)
    moreover from a have "on_progress s ?m i cb = (s, [], None)"
      by (simp add: on_progress_dropped)
    ultimately show ?g by simp
  next
    assume a: "m_id m = Some i \<and> m_method ?m = None \<and> m_callback m = None
             \<and> (typeof (f_result m) \<noteq> TUndefined \<or> truthy (f_error m))
             \<and> no_outbound s i"
    then have "dispatch c en s ?m = Some (on_response s ?m i)"
      by (simp add: dispatch_response)
    moreover from a have "on_response s ?m i = (s, [], None)"
      by (simp add: on_response_dropped)
    ultimately show ?g by simp
  qed
  with True d u show ?thesis by (simp add: onMessage_accepted)
qed

lemma unmatched_examples:
  "onMessage cfg0 env0 chan1 req_unbound = Some (chan1, [], None)
   \<and> onMessage cfg0 env0 chan1 progress_undeclared = Some (chan1, [], None)
   \<and> onMessage cfg0 env0 chan1 response_unknown = Some (chan1, [], None)"
proof -
  have a: "onMessage cfg0 env0 chan1 req_unbound = Some (chan1, [], None)"
    using unmatched_dropped [where ev = req_unbound and c = cfg0 and s = chan1 and en = env0
        and m = "empty_frame\<lparr>f_id := Some 4, f_method := Some ''nope''\<rparr>"
        and um = "Some ''nope''" and i = 4 and mth = "''nope''" and cb = "''x''"]
    by (simp add: req_unbound_def chan1_eq object_prototype_def ex_defs)
  have b: "onMessage cfg0 env0 chan1 progress_undeclared = Some (chan1, [], None)"
    using unmatched_dropped [where ev = progress_undeclared and c = cfg0 and s = chan1 and en = env0
        and m = "empty_frame\<lparr>f_id := Some 1, f_callback := Some ''other''\<rparr>"
        and um = None and i = 1 and mth = "''x''" and cb = "''other''"]
    by (simp add: progress_undeclared_def chan1_eq object_prototype_def ex_defs)
  have c: "onMessage cfg0 env0 chan1 response_unknown = Some (chan1, [], None)"
    using unmatched_dropped [where ev = response_unknown and c = cfg0 and s = chan1 and en = env0
        and m = "empty_frame\<lparr>f_id := Some 9, f_result := JNum 1\<rparr>"
        and um = None and i = 9 and mth = "''x''" and cb = "''x''"]
    by (simp add: response_unknown_def chan1_eq object_prototype_def ex_defs)
  from a b c show ?thesis by simp
qed

text \<open>
  C7, at a failing input: a request for \<^verbatim>\<open>toString\<close>, which no one bound, finds the
  function \<^verbatim>\<open>regTbl\<close> inherits and is answered with the result
  \<^verbatim>\<open>[object Object]\<close>; a request for \<^verbatim>\<open>valueOf\<close> under the id 1 of the call in
  flight is answered as well, and the outbound record of that call is gone afterwards.
\<close>

theorem C7_inherited_method_answered:
  "regTbl chan2 ''toString'' = None
   \<and> onMessage cfg0 env0 chan2 req_inherited
       = Some (chan2, [Sent (empty_frame\<lparr>f_id := Some 9, f_result := JStr ''[object Object]''\<rparr>)], None)
   \<and> regTbl chan2 ''valueOf'' = None
   \<and> tranTbl chan2 1 = Some (Out [''cb'' \<mapsto> AppFn 1] None (AppFn 2))
   \<and> onMessage cfg0 env0 chan2 req_inherited_collide
       = Some (chan2\<lparr>tranTbl := Map.empty\<rparr>,
               [Sent (empty_frame\<lparr>f_id := Some 1, f_result := JObj None []\<rparr>)], None)"
  by (simp add: chan2_eq req_inherited_def req_inherited_collide_def onMessage_accepted
      dispatch_request reg_get_def object_prototype_def on_request_def run_handler_def
      call_inherited_def inherited_throws_def trans_complete_def postMessage_def ex_defs
      Let_def)

subsection \<open>Destroy\<close>


lemma acted_simps [simp]: "acted [] = []" "acted (xs @ ys) = acted xs @ acted ys"
  "acted (Asked f k # xs) = acted xs"
  by (simp_all add: acted_def is_asked_def)














subsection \<open>Notifications\<close>

text \<open>
  C9 (as the code has it). A notification whose method is bound to an application handler
  runs the handler with \<^verbatim>\<open>null\<close> and the parameters; the state is unchanged and nothing
  is sent, whether the handler returns or throws. What it throws leaves
  \<^verbatim>\<open>onMessage\<close> uncaught.
\<close>

theorem C9_notification_app_handler:
  assumes "origin s = Some ''*'' \<or> origin s = Some (ev_origin ev)"
    and "ev_data ev = Obj m"
    and "descope c (f_method m) = Some um"
    and "m_id m = None"
    and "m_method (m\<lparr>f_method := um\<rparr>) = Some mth"
    and "regTbl s mth = Some (App n)"
  shows "onMessage c en s ev =
     Some (s, (if cfg_gotMessageObserver c then [GotObserved m] else []) @ [Handled n None (f_params m)],
        (case handler_run en n None (f_params m) of
           (a # as, fin) \<Rightarrow> Some (JError ''TypeError'')
         | ([], Throw t) \<Rightarrow> Some t
         | ([], Return v) \<Rightarrow> None))"
  using assms
  by (simp add: onMessage_accepted dispatch_notification on_notification_def split: prod.splits list.splits completion.splits)

theorem C9_notification_app_handler_witness:
  "onMessage cfg0 env0 chan1 note_boom = Some (chan1, [Handled 2 None (JStr ''boom'')], Some (JStr ''boom''))"
  using C9_notification_app_handler [where ev = note_boom and c = cfg0 and s = chan1 and en = env0
        and m = "empty_frame\<lparr>f_method := Some ''note'', f_params := JStr ''boom''\<rparr>"
        and um = "Some ''note''" and mth = "''note''" and n = 2]
  by (simp add: note_boom_def chan1_eq ex_defs env0_def)

text \<open>
  C9 as stated fails for the handler the channel binds itself: the \<^verbatim>\<open>__ready\<close>
  notification with \<^verbatim>\<open>ping\<close> is answered with the \<^verbatim>\<open>pong\<close> frame.
\<close>

theorem C9_counterexample:
  "regTbl (initial ''*'' ''abcde'' 0) ''__ready'' = Some OnReady
   \<and> map_option (sent \<circ> fst \<circ> snd) (onMessage cfg0 env0 (initial ''*'' ''abcde'' 0) ping_event)
       = Some [pong_frame cfg0]"
  by (simp add: ping_event_def initial_def onMessage_accepted dispatch_notification on_notification_def onReady_eq ex_defs)

subsection \<open>An inbound request under the id of an outbound call\<close>

lemma tbl_step_refl [simp]: "tbl_step i T T" by (simp add: tbl_step_def)

lemma tbl_step_trans: "tbl_step i T T' \<Longrightarrow> tbl_step i T' T'' \<Longrightarrow> tbl_step i T T''"
  by (auto simp: tbl_step_def)

lemma fired_simps [simp]: "fired [] = []" "fired (xs @ ys) = fired xs @ fired ys"
  "fired (Handled n t p # xs) = fired xs" "fired (Sent m # xs) = fired xs"
  "fired (PostObserved m # xs) = fired xs" "fired (GotObserved m # xs) = fired xs"
  "fired (ReadyObserved # xs) = fired xs" "fired (Fired f a # xs) = (f, a) # fired xs"
  "fired (Asked f k # xs) = fired xs"
  by (simp_all add: fired_def)

lemma fired_post_effects [simp]: "fired (post_effects c m) = []"
  by (simp add: post_effects_def)

lemma fired_flushed [simp]: "fired (concat (map (post_effects c) q)) = []"
  by (induction q) simp_all

lemma postMessage_quiet:
  "postMessage c s m f = (s', es) \<Longrightarrow> tranTbl s' = tranTbl s \<and> fired es = []"
  by (auto simp: postMessage_def split: if_splits)

lemma trans_invoke_quiet:
  "trans_invoke c s i cbs cb v = (s', es, x) \<Longrightarrow> tranTbl s' = tranTbl s \<and> fired es = []"
  by (auto simp: trans_invoke_def split: if_splits prod.splits dest: postMessage_quiet)

lemma trans_complete_quiet:
  "trans_complete c s i v = (s', es, x) \<Longrightarrow> tbl_step i (tranTbl s) (tranTbl s') \<and> fired es = []"
  by (auto simp: trans_complete_def tbl_step_def split: if_splits prod.splits option.splits dest: postMessage_quiet)

lemma trans_error_quiet:
  "trans_error c s i e v = (s', es, x) \<Longrightarrow> tbl_step i (tranTbl s) (tranTbl s') \<and> fired es = []"
  by (auto simp: trans_error_def tbl_step_def split: if_splits prod.splits option.splits dest: postMessage_quiet)

lemma run_action_quiet:
  "run_action c i cbs (s, fl) a = ((s', fl'), es, x) \<Longrightarrow> tbl_step i (tranTbl s) (tranTbl s') \<and> fired es = []"
  by (cases a) (auto simp: run_action_def split: prod.splits dest: trans_invoke_quiet trans_complete_quiet trans_error_quiet)

lemma run_actions_quiet:
  "run_actions c i cbs (s, fl) as = ((s', fl'), es, x) \<Longrightarrow> tbl_step i (tranTbl s) (tranTbl s') \<and> fired es = []"
proof (induction as arbitrary: s fl es s' fl' x)
  case Nil then show ?case by simp
next
  case (Cons a as)
  obtain s1 fl1 e1 x1 where a: "run_action c i cbs (s, fl) a = ((s1, fl1), e1, x1)"
    by (metis prod.exhaust)
  note q1 = run_action_quiet [OF a]
  show ?case
  proof (cases x1)
    case (Some t)
    with Cons.prems a q1 show ?thesis by simp
  next
    case None
    obtain s2 fl2 e2 x2 where r: "run_actions c i cbs (s1, fl1) as = ((s2, fl2), e2, x2)"
      by (metis prod.exhaust)
    note q2 = Cons.IH [OF r]
    from Cons.prems a None r have "s' = s2" "es = e1 @ e2" by simp_all
    with q1 q2 show ?thesis by (auto intro: tbl_step_trans)
  qed
qed

lemma onReady_quiet:
  "onReady c s ty = Some (s', es, x) \<Longrightarrow> tranTbl s' = tranTbl s \<and> fired es = []"
proof (cases "ready s")
  case True
  assume "onReady c s ty = Some (s', es, x)"
  with True show ?thesis by (auto simp: onReady_def)
next
  case False
  assume "onReady c s ty = Some (s', es, x)"
  with False show ?thesis by (auto simp: onReady_eq)
qed

lemma onReady_total: "\<exists>r. onReady c s ty = Some r"
proof (cases "ready s")
  case True
  then show ?thesis by (simp add: onReady_def)
next
  case False
  then show ?thesis by (simp add: onReady_eq)
qed

lemma run_handler_quiet:
  "run_handler c en s i cbs h p = Some (s', es, x) \<Longrightarrow> tbl_step i (tranTbl s) (tranTbl s') \<and> fired es = []"
proof (cases h)
  case OnReady
  assume r: "run_handler c en s i cbs h p = Some (s', es, x)"
  obtain s1 e1 x1 where o: "onReady c s p = Some (s1, e1, x1)"
    using onReady_total [of c s p] by (metis prod.exhaust)
  note q = onReady_quiet [OF o]
  show ?thesis
  proof (cases x1)
    case (Some t) with r o q OnReady show ?thesis by (simp add: run_handler_def)
  next
    case None
    obtain s2 e2 x2 where tc: "trans_complete c s1 i JUndef = (s2, e2, x2)" by (metis prod.exhaust)
    from trans_complete_quiet [OF tc] q r o None OnReady tc show ?thesis
      by (auto simp: run_handler_def)
  qed
next
  case (App n)
  assume r: "run_handler c en s i cbs h p = Some (s', es, x)"
  obtain acts fin where hr: "handler_run en n (Some i) p = (acts, fin)" by (metis prod.exhaust)
  obtain s1 fl1 e1 x1 where ra: "run_actions c i cbs (s, \<lparr>shouldDelayReturn = False, completed = False\<rparr>) acts = ((s1, fl1), e1, x1)"
    by (metis prod.exhaust)
  note q = run_actions_quiet [OF ra]
  obtain s2 e2 x2 where tc: "trans_complete c s1 i (case fin of Return v \<Rightarrow> v | Throw v \<Rightarrow> v) = (s2, e2, x2)" by (metis prod.exhaust)
  note q2 = trans_complete_quiet [OF tc]
  from r App hr ra q q2 tc show ?thesis
    by (auto simp: run_handler_def split: option.splits completion.splits if_splits intro: tbl_step_trans)
next
  case (Builtin name)
  assume r: "run_handler c en s i cbs h p = Some (s', es, x)"
  obtain s2 e2 x2 where tc: "trans_complete c s i
      (case call_inherited name (regTbl s ''[object Object]'' \<noteq> None) of Return v \<Rightarrow> v | Throw v \<Rightarrow> v)
      = (s2, e2, x2)" by (metis prod.exhaust)
  from trans_complete_quiet [OF tc] r Builtin tc show ?thesis
    by (auto simp: run_handler_def split: completion.splits)
qed

lemma run_handler_total: "\<exists>r. run_handler c en s i cbs h p = Some r"
proof (cases h)
  case OnReady
  then show ?thesis using onReady_total [of c s p]
    by (auto simp: run_handler_def split: option.splits prod.splits)
next
  case (App n)
  then show ?thesis
    by (auto simp: run_handler_def split: option.splits prod.splits completion.splits)
next
  case (Builtin name)
  show ?thesis
  proof (cases "call_inherited name (regTbl s ''[object Object]'' \<noteq> None)")
    case (Return v)
    obtain s2 e2 x2 where "trans_complete c s i v = (s2, e2, x2)" by (metis prod.exhaust)
    with Builtin Return show ?thesis by (simp add: run_handler_def)
  next
    case (Throw t)
    with Builtin show ?thesis by (simp add: run_handler_def)
  qed
qed

lemma on_request_quiet:
  "\<exists>s' es x. on_request c en s m i h = Some (s', es, x)
      \<and> tbl_step i ((tranTbl s)(i \<mapsto> In)) (tranTbl s') \<and> fired es = []"
proof -
  let ?cbs = "case f_callbacks m of Some cs \<Rightarrow> cs | None \<Rightarrow> []"
  let ?s1 = "s\<lparr>tranTbl := (tranTbl s)(i \<mapsto> In)\<rparr>"
  let ?tried = "case install_callbacks i ?cbs (f_params m) of
                     Inl t \<Rightarrow> Some (?s1, [], Some t)
                   | Inr params \<Rightarrow> run_handler c en ?s1 i ?cbs h params"
  have "\<exists>s2 e2 x2. ?tried = Some (s2, e2, x2) \<and> tbl_step i ((tranTbl s)(i \<mapsto> In)) (tranTbl s2) \<and> fired e2 = []"
  proof (cases "install_callbacks i ?cbs (f_params m)")
    case (Inl t) then show ?thesis by simp
  next
    case (Inr p)
    obtain s2 e2 x2 where rh: "run_handler c en ?s1 i ?cbs h p = Some (s2, e2, x2)"
      using run_handler_total [of c en ?s1 i ?cbs h p] by (metis prod.exhaust)
    from run_handler_quiet [OF rh] rh Inr show ?thesis by simp
  qed
  then obtain s2 e2 x2 where t: "?tried = Some (s2, e2, x2)"
    and q: "tbl_step i ((tranTbl s)(i \<mapsto> In)) (tranTbl s2)" "fired e2 = []" by blast
  show ?thesis
  proof (cases x2)
    case None
    with t q show ?thesis by (simp add: on_request_def Let_def)
  next
    case (Some thrown)
    show ?thesis
    proof (cases "normalize_thrown en thrown")
      case (Inl t') with t q Some show ?thesis by (simp add: on_request_def Let_def)
    next
      case (Inr em)
      obtain err msg where em: "em = (err, msg)" by (cases em)
      obtain s3 e3 x3 where te: "trans_error c s2 i err msg = (s3, e3, x3)" by (metis prod.exhaust)
      from trans_error_quiet [OF te] t q Some Inr em te show ?thesis
        by (auto simp: on_request_def Let_def intro: tbl_step_trans)
    qed
  qed
qed

lemma run_handler_App_head:
  "\<exists>s1 e1 x1. run_handler c en s i cbs (App n) p = Some (s1, Handled n (Some i) p # e1, x1)"
  by (auto simp: run_handler_def split: prod.splits option.splits completion.splits)

lemma on_request_App_head:
  assumes "install_callbacks i (case f_callbacks m of Some cs \<Rightarrow> cs | None \<Rightarrow> []) (f_params m) = Inr W"
  shows "\<exists>s2 es2 x2. on_request c en s m i (App n) = Some (s2, Handled n (Some i) W # es2, x2)"
proof -
  let ?cbs = "case f_callbacks m of Some cs \<Rightarrow> cs | None \<Rightarrow> []"
  let ?s1 = "s\<lparr>tranTbl := (tranTbl s)(i \<mapsto> In)\<rparr>"
  from run_handler_App_head [of c en ?s1 i ?cbs n W]
  obtain s1 e1 x1 where r: "run_handler c en ?s1 i ?cbs (App n) W = Some (s1, Handled n (Some i) W # e1, x1)"
    by blast
  show ?thesis
  proof (cases x1)
    case None
    with r assms show ?thesis by (simp add: on_request_def Let_def)
  next
    case (Some t)
    show ?thesis
    proof (cases "normalize_thrown en t")
      case (Inl t')
      with r assms Some show ?thesis by (simp add: on_request_def Let_def)
    next
      case (Inr em)
      obtain err msg where em: "em = (err, msg)" by (cases em)
      obtain s3 e3 x3 where te: "trans_error c s1 i err msg = (s3, e3, x3)" by (metis prod.exhaust)
      from r assms Some Inr em te show ?thesis by (simp add: on_request_def Let_def)
    qed
  qed
qed

text \<open>
  While a handler runs, the table holds the inbound record under the id of the request until
  the handler completes the transaction or reports an error.
\<close>

lemma run_action_entry:
  assumes "run_action c i cbs (s, fl) a = ((s', fl'), es, x)"
    and "tranTbl s i = (if completed fl then None else Some In)"
  shows "tranTbl s' i = (if completed fl' then None else Some In)"
  using assms
  by (cases a)
     (auto simp: run_action_def trans_invoke_def trans_complete_def trans_error_def postMessage_def
        split: prod.splits if_splits option.splits jsval.splits)

lemma run_actions_entry:
  "run_actions c i cbs (s, fl) as = ((s', fl'), es, x) \<Longrightarrow>
   tranTbl s i = (if completed fl then None else Some In) \<Longrightarrow>
   tranTbl s' i = (if completed fl' then None else Some In)"
proof (induction as arbitrary: s fl es s' fl' x)
  case Nil then show ?case by simp
next
  case (Cons a as)
  obtain s1 fl1 e1 x1 where a: "run_action c i cbs (s, fl) a = ((s1, fl1), e1, x1)"
    by (metis prod.exhaust)
  note q1 = run_action_entry [OF a Cons.prems(2)]
  show ?case
  proof (cases x1)
    case (Some t)
    with Cons.prems a q1 show ?thesis by simp
  next
    case None
    obtain s2 fl2 e2 x2 where r: "run_actions c i cbs (s1, fl1) as = ((s2, fl2), e2, x2)"
      by (metis prod.exhaust)
    note q2 = Cons.IH [OF r q1]
    from Cons.prems a None r have "s' = s2" "fl' = fl2" by simp_all
    with q2 show ?thesis by simp
  qed
qed

lemma on_request_stored:
  "on_request c en (s\<lparr>tranTbl := (tranTbl s)(i \<mapsto> In)\<rparr>) m i h = on_request c en s m i h"
  by (simp add: on_request_def)

lemma on_request_open:
  assumes ins: "install_callbacks i (case f_callbacks m of Some cs \<Rightarrow> cs | None \<Rightarrow> []) (f_params m) = Inr p"
    and hr: "handler_run en n (Some i) p = (acts, Return v)"
    and ra: "run_actions c i (case f_callbacks m of Some cs \<Rightarrow> cs | None \<Rightarrow> [])
               (s\<lparr>tranTbl := (tranTbl s)(i \<mapsto> In)\<rparr>, \<lparr>shouldDelayReturn = False, completed = False\<rparr>) acts
             = ((s2, fl2), e2, None)"
    and dl: "shouldDelayReturn fl2" and nc: "\<not> completed fl2"
  shows "on_request c en s m i (App n) = Some (s2, Handled n (Some i) p # e2, None)
         \<and> tranTbl s2 i = Some In"
proof -
  from run_actions_entry [OF ra] nc have "tranTbl s2 i = Some In" by simp
  moreover from ins hr ra dl have "on_request c en s m i (App n) = Some (s2, Handled n (Some i) p # e2, None)"
    by (simp add: on_request_def run_handler_def Let_def)
  ultimately show ?thesis by simp
qed

text \<open>
  C10. A request whose method has a handler stores the inbound record under the id of the
  frame whatever the table held there: the request is processed exactly as in the state
  that holds the inbound record under that id, an application handler is run (once the
  declared callbacks are installed, on paths that do not pass through \<^verbatim>\<open>__proto__\<close>),
  and when the handler has delayed its return without finishing the transaction the table
  holds the inbound record afterwards. In every case
  the table holds under that id the inbound record or nothing when the request has been
  processed, never the outbound record that was there; none of the continuations fired, and
  a progress frame or a final response for that id finds no outbound record and fires
  nothing.
\<close>

theorem C10_request_overwrites_outbound:
  assumes "origin s = Some ''*'' \<or> origin s = Some (ev_origin ev)"
    and "ev_data ev = Obj m"
    and "descope c (f_method m) = Some um"
    and "m_id m = Some i"
    and "m_method (m\<lparr>f_method := um\<rparr>) = Some mth"
    and "regTbl s mth = Some h"
  shows "\<exists>s' es x. onMessage c en s ev = Some (s', es, x)
           \<and> onMessage c en (s\<lparr>tranTbl := (tranTbl s)(i \<mapsto> In)\<rparr>) ev = Some (s', es, x)
           \<and> (tranTbl s' i = None \<or> tranTbl s' i = Some In)
           \<and> (\<forall>n p. h = App n
                 \<and> list_all plain_path (case f_callbacks m of Some cs \<Rightarrow> cs | None \<Rightarrow> [])
                 \<and> install_callbacks i (case f_callbacks m of Some cs \<Rightarrow> cs | None \<Rightarrow> []) (f_params m) = Inr p
                 \<longrightarrow> Handled n (Some i) p \<in> set es)
           \<and> (\<forall>n p acts v s2 fl2 e2. h = App n
                 \<and> list_all plain_path (case f_callbacks m of Some cs \<Rightarrow> cs | None \<Rightarrow> [])
                 \<and> install_callbacks i (case f_callbacks m of Some cs \<Rightarrow> cs | None \<Rightarrow> []) (f_params m) = Inr p
                 \<and> handler_run en n (Some i) p = (acts, Return v)
                 \<and> run_actions c i (case f_callbacks m of Some cs \<Rightarrow> cs | None \<Rightarrow> [])
                      (s\<lparr>tranTbl := (tranTbl s)(i \<mapsto> In)\<rparr>,
                       \<lparr>shouldDelayReturn = False, completed = False\<rparr>) acts
                    = ((s2, fl2), e2, None)
                 \<and> shouldDelayReturn fl2 \<and> \<not> completed fl2
                 \<longrightarrow> s' = s2 \<and> tranTbl s' i = Some In)
           \<and> fired es = []
           \<and> (\<forall>m2 cb. on_progress s' m2 i cb = (s', [], None))
           \<and> (\<forall>m2. on_response s' m2 i = (s', [], None))"
proof -
  let ?m = "m\<lparr>f_method := um\<rparr>"
  let ?cbs = "case f_callbacks m of Some cs \<Rightarrow> cs | None \<Rightarrow> []"
  let ?tap = "if cfg_gotMessageObserver c then [GotObserved m] else []"
  obtain s' es x where r: "on_request c en s ?m i h = Some (s', es, x)"
    and t: "tbl_step i ((tranTbl s)(i \<mapsto> In)) (tranTbl s')" and f: "fired es = []"
    using on_request_quiet [of c en s ?m i h] by blast
  from t have a: "tranTbl s' i = None \<or> tranTbl s' i = Some In"
    by (auto simp: tbl_step_def)
  from a have p: "\<forall>m2 cb. on_progress s' m2 i cb = (s', [], None)"
      "\<forall>m2. on_response s' m2 i = (s', [], None)"
    by (auto simp: on_progress_def on_response_def)
  from assms r have 1: "onMessage c en s ev = Some (s', ?tap @ es, x)"
    by (simp add: onMessage_accepted dispatch_request)
  from assms r have 2: "onMessage c en (s\<lparr>tranTbl := (tranTbl s)(i \<mapsto> In)\<rparr>) ev = Some (s', ?tap @ es, x)"
    by (simp add: onMessage_accepted dispatch_request on_request_stored)
  have 3: "\<forall>n p. h = App n \<and> list_all plain_path ?cbs \<and> install_callbacks i ?cbs (f_params m) = Inr p
             \<longrightarrow> Handled n (Some i) p \<in> set (?tap @ es)"
  proof (intro allI impI)
    fix n p
    assume "h = App n \<and> list_all plain_path ?cbs \<and> install_callbacks i ?cbs (f_params m) = Inr p"
    then have h: "h = App n" and "install_callbacks i (case f_callbacks ?m of Some cs \<Rightarrow> cs | None \<Rightarrow> [])
                     (f_params ?m) = Inr p" by simp_all
    from on_request_App_head [OF this(2), of c en s n] r h
    show "Handled n (Some i) p \<in> set (?tap @ es)" by auto
  qed
  have 4: "\<forall>n p acts v s2 fl2 e2. h = App n
             \<and> list_all plain_path ?cbs
             \<and> install_callbacks i ?cbs (f_params m) = Inr p
             \<and> handler_run en n (Some i) p = (acts, Return v)
             \<and> run_actions c i ?cbs
                  (s\<lparr>tranTbl := (tranTbl s)(i \<mapsto> In)\<rparr>,
                   \<lparr>shouldDelayReturn = False, completed = False\<rparr>) acts
                = ((s2, fl2), e2, None)
             \<and> shouldDelayReturn fl2 \<and> \<not> completed fl2
             \<longrightarrow> s' = s2 \<and> tranTbl s' i = Some In"
  proof (intro allI impI)
    fix n p acts v s2 fl2 e2
    assume b: "h = App n
             \<and> list_all plain_path ?cbs
             \<and> install_callbacks i ?cbs (f_params m) = Inr p
             \<and> handler_run en n (Some i) p = (acts, Return v)
             \<and> run_actions c i ?cbs
                  (s\<lparr>tranTbl := (tranTbl s)(i \<mapsto> In)\<rparr>,
                   \<lparr>shouldDelayReturn = False, completed = False\<rparr>) acts
                = ((s2, fl2), e2, None)
             \<and> shouldDelayReturn fl2 \<and> \<not> completed fl2"
    then have h: "h = App n"
      and ins: "install_callbacks i (case f_callbacks ?m of Some cs \<Rightarrow> cs | None \<Rightarrow> []) (f_params ?m) = Inr p"
      and hr: "handler_run en n (Some i) p = (acts, Return v)"
      and ra: "run_actions c i (case f_callbacks ?m of Some cs \<Rightarrow> cs | None \<Rightarrow> [])
                  (s\<lparr>tranTbl := (tranTbl s)(i \<mapsto> In)\<rparr>,
                   \<lparr>shouldDelayReturn = False, completed = False\<rparr>) acts
                = ((s2, fl2), e2, None)"
      and dl: "shouldDelayReturn fl2" and nc: "\<not> completed fl2" by simp_all
    from on_request_open [OF ins hr ra dl nc, of] r h
    show "s' = s2 \<and> tranTbl s' i = Some In" by simp
  qed
  from 1 2 3 4 a f p show ?thesis by simp
qed

theorem C10_request_overwrites_outbound_witness:
  "tranTbl chan1 1 = Some (Out [''cb'' \<mapsto> AppFn 1] None (AppFn 2))
   \<and> (\<exists>s' es x. onMessage cfg0 env0 chan1 req_collide = Some (s', es, x)
           \<and> tranTbl s' 1 = Some In
           \<and> Handled 3 (Some 1) JUndef \<in> set es
           \<and> fired es = []
           \<and> (\<forall>m2 cb. on_progress s' m2 1 cb = (s', [], None))
           \<and> (\<forall>m2. on_response s' m2 1 = (s', [], None)))
   \<and> onMessage cfg0 env0 chan1 req_collide
       = Some (chan1\<lparr>tranTbl := [1 \<mapsto> In]\<rparr>, [Handled 3 (Some 1) JUndef], None)"
proof -
  let ?m = "empty_frame\<lparr>f_id := Some 1, f_method := Some ''slow''\<rparr>"
  have pre: "origin chan1 = Some ''*'' \<or> origin chan1 = Some (ev_origin req_collide)"
    "ev_data req_collide = Obj ?m" "descope cfg0 (f_method ?m) = Some (Some ''slow'')"
    "m_id ?m = Some 1" "m_method (?m\<lparr>f_method := Some ''slow''\<rparr>) = Some ''slow''"
    "regTbl chan1 ''slow'' = Some (App 3)"
    by (simp_all add: req_collide_def chan1_eq ex_defs)
  from C10_request_overwrites_outbound [OF pre, of env0]
  obtain s' es x where r: "onMessage cfg0 env0 chan1 req_collide = Some (s', es, x)"
    and hd: "\<forall>n p. App 3 = App n
                 \<and> list_all plain_path (case f_callbacks ?m of Some cs \<Rightarrow> cs | None \<Rightarrow> [])
                 \<and> install_callbacks 1 (case f_callbacks ?m of Some cs \<Rightarrow> cs | None \<Rightarrow> []) (f_params ?m) = Inr p
                 \<longrightarrow> Handled n (Some 1) p \<in> set es"
    and op: "\<forall>n p acts v s2 fl2 e2. App 3 = App n
                 \<and> list_all plain_path (case f_callbacks ?m of Some cs \<Rightarrow> cs | None \<Rightarrow> [])
                 \<and> install_callbacks 1 (case f_callbacks ?m of Some cs \<Rightarrow> cs | None \<Rightarrow> []) (f_params ?m) = Inr p
                 \<and> handler_run env0 n (Some 1) p = (acts, Return v)
                 \<and> run_actions cfg0 1 (case f_callbacks ?m of Some cs \<Rightarrow> cs | None \<Rightarrow> [])
                      (chan1\<lparr>tranTbl := (tranTbl chan1)(1 \<mapsto> In)\<rparr>,
                       \<lparr>shouldDelayReturn = False, completed = False\<rparr>) acts
                    = ((s2, fl2), e2, None)
                 \<and> shouldDelayReturn fl2 \<and> \<not> completed fl2
                 \<longrightarrow> s' = s2 \<and> tranTbl s' 1 = Some In"
    and f: "fired es = []"
    and p: "\<forall>m2 cb. on_progress s' m2 1 cb = (s', [], None)" "\<forall>m2. on_response s' m2 1 = (s', [], None)"
    by blast
  have i: "install_callbacks 1 (case f_callbacks ?m of Some cs \<Rightarrow> cs | None \<Rightarrow> []) (f_params ?m) = Inr JUndef"
    by (simp add: empty_frame_def)
  have pp: "list_all plain_path (case f_callbacks ?m of Some cs \<Rightarrow> cs | None \<Rightarrow> [])"
    by (simp add: empty_frame_def)
  from hd i pp have h3: "Handled 3 (Some 1) JUndef \<in> set es" by blast
  have hr: "handler_run env0 3 (Some 1) JUndef = ([DelayReturn (JBool True)], Return JUndef)"
    by (simp add: env0_def)
  have ra: "run_actions cfg0 1 (case f_callbacks ?m of Some cs \<Rightarrow> cs | None \<Rightarrow> [])
              (chan1\<lparr>tranTbl := (tranTbl chan1)(1 \<mapsto> In)\<rparr>,
               \<lparr>shouldDelayReturn = False, completed = False\<rparr>) [DelayReturn (JBool True)]
            = ((chan1\<lparr>tranTbl := (tranTbl chan1)(1 \<mapsto> In)\<rparr>,
                \<lparr>shouldDelayReturn = True, completed = False\<rparr>), [], None)"
    by (simp add: run_action_def)
  from op [rule_format, of 3 JUndef "[DelayReturn (JBool True)]" JUndef
      "chan1\<lparr>tranTbl := (tranTbl chan1)(1 \<mapsto> In)\<rparr>" "\<lparr>shouldDelayReturn = True, completed = False\<rparr>" "[]"]
    i pp hr ra
  have st: "tranTbl s' 1 = Some In" by simp
  have b: "onMessage cfg0 env0 chan1 req_collide
       = Some (chan1\<lparr>tranTbl := [1 \<mapsto> In]\<rparr>, [Handled 3 (Some 1) JUndef], None)"
    by (simp add: req_collide_def chan1_eq onMessage_accepted dispatch_request on_request_def
        run_handler_def run_action_def env0_def ex_defs Let_def)
  have t: "tranTbl chan1 1 = Some (Out [''cb'' \<mapsto> AppFn 1] None (AppFn 2))" by (simp add: chan1_eq)
  from r st h3 f p have "\<exists>s' es x. onMessage cfg0 env0 chan1 req_collide = Some (s', es, x)
           \<and> tranTbl s' 1 = Some In
           \<and> Handled 3 (Some 1) JUndef \<in> set es
           \<and> fired es = []
           \<and> (\<forall>m2 cb. on_progress s' m2 1 cb = (s', [], None))
           \<and> (\<forall>m2. on_response s' m2 1 = (s', [], None))" by blast
  with t b show ?thesis by blast
qed


subsection \<open>Error normalisation\<close>







subsection \<open>The handshake between two channels\<close>

lemma sys_handshake:
  "sys_run cfg0 env0 sys0 symmetric_handshake =
     Some \<lparr> peerA = (initial ''*'' ''aaaaa'' 4)\<lparr>chanId := ''aaaaa-R'', curTranId := 6, regTbl := Map.empty, ready := True\<rparr>,
            peerB = (initial ''*'' ''bbbbb'' 5)\<lparr>chanId := ''bbbbb-R'', curTranId := 6, regTbl := Map.empty, ready := True\<rparr>,
            toA = [], toB = [] \<rparr>"
  by (simp add: sys0_def symmetric_handshake_def sys_step_def send_ping_def postMessage_def scopeMethod_def
      deliver_def onMessage_accepted dispatch_notification on_notification_def onReady_eq
      reg_get_def object_prototype_def
      wire_frame_def post_effects_def pong_frame_def initial_def ex_defs)

text \<open>
  C1, at a failing input: both channels are built before either \<^verbatim>\<open>ping\<close> is delivered.
  Each receives the \<^verbatim>\<open>ping\<close> of the other, so each moves its counter (5 on both sides)
  to the even value 6 and unbinds \<^verbatim>\<open>__ready\<close>; the two \<^verbatim>\<open>pong\<close> frames are then
  ignored. Both sides are ready, and the first call of each side carries the id 6.
\<close>

theorem C1_symmetric_handshake_collides:
  "sys_run cfg0 env0 sys0 symmetric_handshake \<noteq> None
   \<and> map_option (ready \<circ> peerA) (sys_run cfg0 env0 sys0 symmetric_handshake) = Some True
   \<and> map_option (ready \<circ> peerB) (sys_run cfg0 env0 sys0 symmetric_handshake) = Some True
   \<and> map_option (map f_id \<circ> toB)
        (sys_run cfg0 env0 sys0 (symmetric_handshake @ [CallA ''m'', CallB ''m''])) = Some [Some 6]
   \<and> map_option (map f_id \<circ> toA)
        (sys_run cfg0 env0 sys0 (symmetric_handshake @ [CallA ''m'', CallB ''m''])) = Some [Some 6]"
proof -
  have run_app: "sys_run c en y (xs @ ys) = (case sys_run c en y xs of None \<Rightarrow> None | Some y' \<Rightarrow> sys_run c en y' ys)"
    for c en y xs ys
    by (induction xs arbitrary: y) (auto split: option.splits)
  show ?thesis
    unfolding run_app sys_handshake
    by (simp add: sys_step_def call_def postMessage_def scopeMethod_def cfg0_def
        wire_frame_def callbacks_of_def initial_def empty_frame_def Let_def)
qed


subsection \<open>Callback marshalling: strings\<close>




lemma show_nat_digits: "set (show_nat n) \<subseteq> set ''0123456789''"
proof (induction n rule: show_nat.induct)
  case (1 n)
  have d: "d < 10 \<Longrightarrow> digit_char d \<in> set ''0123456789''" for d
    unfolding digit_char_def by (rule nth_mem) simp
  show ?case
  proof (cases "n < 10")
    case True
    then show ?thesis using d [of n] by (subst show_nat.simps) simp
  next
    case False
    then show ?thesis using 1 d [of "n mod 10"] by (subst show_nat.simps) simp
  qed
qed



lemma show_nat_no_slash: "CHR ''/'' \<notin> set (show_nat n)"
  using show_nat_digits [of n] by auto




subsection \<open>Callback marshalling: property lists and installation\<close>




lemma is_obj_JObj [simp]: "is_obj (JObj a kvs)" by (simp add: is_obj_def)



lemma is_objE: "is_obj v \<Longrightarrow> (\<And>a kvs. v = JObj a kvs \<Longrightarrow> P) \<Longrightarrow> P"
  by (cases v) (simp_all add: is_obj_def)

lemma js_set_obj: "js_set ob k v = Inr r \<Longrightarrow> is_obj ob \<Longrightarrow> is_obj r"
proof -
  assume r: "js_set ob k v = Inr r" and o: "is_obj ob"
  from o obtain a kvs where ob: "ob = JObj a kvs" by (rule is_objE)
  from r show ?thesis unfolding ob by (cases a) (auto split: if_splits)
qed

lemma install_items_obj:
  "install_items ks v (JObj a kvs) = Inr r \<Longrightarrow> is_obj r"
proof (cases ks)
  case Nil
  assume "install_items ks v (JObj a kvs) = Inr r"
  with Nil show ?thesis by auto
next
  case (Cons k rest)
  assume r: "install_items ks v (JObj a kvs) = Inr r"
  show ?thesis
  proof (cases rest)
    case Nil
    with r Cons show ?thesis by (auto dest: js_set_obj)
  next
    case (Cons k2 rest2)
    from r \<open>ks = k # rest\<close> Cons
    obtain obj1 where o1: "obj1 = JObj a kvs \<or> js_set (JObj a kvs) k (JObj None []) = Inr obj1"
      and r': "r = obj1 \<or> (\<exists>c2. js_set obj1 k c2 = Inr r)"
      by (auto split: sum.splits if_splits jsval.splits)
    from o1 have "is_obj obj1" by (auto dest: js_set_obj)
    with r' show ?thesis by (auto dest: js_set_obj)
  qed
qed

lemma install_all_obj:
  "install_all i L v = Inr r \<Longrightarrow> is_obj v \<Longrightarrow> is_obj r"
proof (induction L arbitrary: v)
  case Nil then show ?case by simp
next
  case (Cons x L)
  obtain ks n where x: "x = (ks, n)" by (cases x)
  from Cons.prems(2) obtain a kvs where v: "v = JObj a kvs" by (cases v) (simp_all add: is_obj_def)
  from Cons.prems(1) x obtain c2 where c: "install_items ks (JFun (Proxy i n)) v = Inr c2"
    and r: "install_all i L c2 = Inr r" by (auto split: sum.splits)
  from c v have "is_obj c2" by (auto dest: install_items_obj)
  with Cons.IH [OF r] show ?case .
qed




subsection \<open>Callback marshalling: pruning and the wire\<close>


















subsection \<open>Callback marshalling: the tree the handler is given\<close>









lemma lookup_undef [simp]: "lookup JUndef ks = JUndef"
  by (cases ks) simp_all






subsection \<open>Callback marshalling: path names\<close>

















subsection \<open>Callback marshalling: the round trip\<close>














end
